theory Spec2Isabelle
  imports Main "HOL-Library.Sublist"
begin

section \<open>JavaScript values, failures and promises\<close>

text \<open>
  The failures the module can raise. \<open>Error\<close> is the object built by
  \<^verbatim>\<open>new Error(message)\<close>; \<open>TypeError p\<close> is what the engine raises when property
  \<open>p\<close> is read on \<^verbatim>\<open>undefined\<close>; \<open>ReferenceError x\<close> is what it raises when the
  identifier \<open>x\<close> is evaluated and no binding of that name is in scope. The engine's own
  message text is not modelled, only the name of the property or identifier.
\<close>

datatype js_error =
    Error string
  | TypeError string
  | ReferenceError string

text \<open>
  A promise is represented by the way it settles: \<open>Inl e\<close> is a rejection with \<open>e\<close>,
  \<open>Inr v\<close> a fulfilment with \<open>v\<close>. An \<^verbatim>\<open>async\<close> function never throws to its caller:
  whatever is thrown in its body rejects the promise it returns.
\<close>

type_synonym 'a promise = "js_error + 'a"

text \<open>
  The values a condition can hold (an object, such as an \<^verbatim>\<open>Error\<close>, by a name for it), and
  \<^verbatim>\<open>ToBoolean\<close> on them.
\<close>

datatype js_value =
    JsUndefined
  | JsNull
  | JsBoolean bool
  | JsNumber int
  | JsString string
  | JsObject string
  | JsFunction string

fun ToBoolean :: "js_value \<Rightarrow> bool" where
  "ToBoolean JsUndefined = False"
| "ToBoolean JsNull = False"
| "ToBoolean (JsBoolean b) = b"
| "ToBoolean (JsNumber n) = (n \<noteq> 0)"
| "ToBoolean (JsString s) = (s \<noteq> [])"
| "ToBoolean (JsObject name) = True"
| "ToBoolean (JsFunction f) = True"

section \<open>Strings\<close>

text \<open>\<^verbatim>\<open>s.indexOf(t)\<close>: the first position at which \<open>t\<close> starts in \<open>s\<close>, or \<open>-1\<close>.\<close>

fun indexOf_from :: "nat \<Rightarrow> string \<Rightarrow> string \<Rightarrow> int" where
  "indexOf_from i [] t = (if t = [] then int i else - 1)"
| "indexOf_from i (c # cs) t =
     (if prefix t (c # cs) then int i else indexOf_from (Suc i) cs t)"

definition indexOf :: "string \<Rightarrow> string \<Rightarrow> int" where
  "indexOf s t = indexOf_from 0 s t"

text \<open>Template-literal conversion of a non-negative integer: its decimal digits.\<close>

function toString_nat :: "nat \<Rightarrow> string" where
  "toString_nat n =
     (if n < 10 then [''0123456789'' ! n]
      else toString_nat (n div 10) @ [''0123456789'' ! (n mod 10)])"
  by pat_completeness auto
termination
  by (relation "measure id") auto

text \<open>\<^verbatim>\<open>s.trim()\<close> on the ASCII white space, and \<^verbatim>\<open>s.split(sep)\<close>.\<close>

definition is_space :: "char \<Rightarrow> bool" where
  "is_space c = (c \<in> set [CHR '' '', CHR 0x09, CHR 0x0A, CHR 0x0B, CHR 0x0C, CHR 0x0D])"

definition trim :: "string \<Rightarrow> string" where
  "trim s = rev (dropWhile is_space (rev (dropWhile is_space s)))"

function split_acc :: "string \<Rightarrow> string \<Rightarrow> string \<Rightarrow> string list" where
  "split_acc sep acc [] = [rev acc]"
| "split_acc sep acc (c # cs) =
     (if sep \<noteq> [] \<and> prefix sep (c # cs)
      then rev acc # split_acc sep [] (drop (length sep) (c # cs))
      else split_acc sep (c # acc) cs)"
  by pat_completeness auto
termination
  by (relation "measure (\<lambda>(sep, acc, s). length s)") (auto simp: neq_Nil_conv)

definition split :: "string \<Rightarrow> string \<Rightarrow> string list" where
  "split s sep = (if sep = [] then map (\<lambda>c. [c]) s else split_acc sep [] s)"

section \<open>Data of the CI service\<close>

text \<open>
  The items of the four list endpoints, with the fields the module reads. The response
  bodies are taken as the service's schema gives them: \<^verbatim>\<open>JSON.parse(response.body).items\<close>
  is a list of such items.
\<close>

record pipeline =
  p_id :: string
  p_number :: nat

record workflow =
  wf_id :: string
  wf_name :: string
  wf_status :: string

record job =
  job_name :: string
  job_number :: nat

record artifact =
  art_path :: string
  art_url :: string

text \<open>
  The argument of \<^verbatim>\<open>request(options)\<close>. A field the object literal leaves out, or whose
  value is \<^verbatim>\<open>undefined\<close>, is \<open>None\<close>.
\<close>

record options =
  opt_method :: string
  opt_url :: string
  opt_qs :: "(string \<times> string) list option"
  opt_headers :: "(string \<times> string) list option"

text \<open>
  What \<^verbatim>\<open>await request(options)\<close> yields: \<open>resp_error\<close> is the value of
  \<^verbatim>\<open>response.error\<close> (\<open>JsUndefined\<close> when the property is absent), which the helpers test
  for truthiness.
\<close>

record 'a response =
  resp_error :: js_value
  resp_items :: "'a list"

section \<open>The world outside the module\<close>

text \<open>
  The collaborators are parameters. Each HTTP endpoint answers the \<open>n\<close>-th request of
  the run (\<open>n\<close> counts the requests issued so far), so the same request may be answered
  differently at different times, and may reject. \<open>settle_order\<close> is the order in
  which concurrently pending promises settle. \<open>shell\<close> gives, for the \<open>n\<close>-th command
  run by \<^verbatim>\<open>exec\<close>, its standard output and its effect on the files.
\<close>

type_synonym files = "string \<Rightarrow> string option"

record world =
  pipelines_api :: "nat \<Rightarrow> options \<Rightarrow> pipeline response promise"
  workflows_api :: "nat \<Rightarrow> options \<Rightarrow> workflow response promise"
  jobs_api :: "nat \<Rightarrow> options \<Rightarrow> job response promise"
  artifacts_api :: "nat \<Rightarrow> options \<Rightarrow> artifact response promise"
  settle_order :: "nat list"
  shell :: "nat \<Rightarrow> string \<Rightarrow> files \<Rightarrow> string \<times> files"
  spawn_throws :: "string \<Rightarrow> string list \<Rightarrow> string option"
  env_ANDROID_HOME :: "string option"
  os_EOL :: string

datatype console_call =
    ConsoleInfo string
  | ConsoleError string
  | ConsoleWarn string

text \<open>
  The state of a run: the properties of the \<^verbatim>\<open>CircleCIArtifacts\<close> object
  (\<open>circleCIToken\<close>, \<open>circleCIHeaders\<close>, \<open>jobs\<close>; \<open>None\<close> is \<^verbatim>\<open>undefined\<close>), the
  variable \<open>baseTemporaryPath\<close> of the module-level variant, and what
  the run has done so far: the HTTP requests issued, the rejections of promises that
  nothing awaits, the console output, the commands run, the processes spawned, and the
  files.
\<close>

record state =
  circleCIToken :: "(string \<times> string) list option"
  circleCIHeaders :: "(string \<times> string) list option"
  jobs :: "job list option"
  baseTemporaryPath :: "string option"
  requests :: "options list"
  unhandled :: "js_error list"
  console :: "console_call list"
  execs :: "string list"
  spawned :: "(string \<times> string list) list"
  files :: files

section \<open>Control\<close>

text \<open>
  \<open>await m k\<close>: call the \<^verbatim>\<open>async\<close> function \<open>m\<close> and await its promise; a rejection is
  thrown (and so settles the caller), a fulfilment continues with \<open>k\<close>.
  \<open>not_awaited p\<close>: the promise \<open>p\<close> is dropped; if it rejects, that is an unhandled
  rejection and the caller goes on.
\<close>

definition await ::
  "(state \<Rightarrow> 'a promise \<times> state) \<Rightarrow> ('a \<Rightarrow> state \<Rightarrow> 'b promise \<times> state) \<Rightarrow>
   state \<Rightarrow> 'b promise \<times> state" where
  "await m k st =
     (case m st of
        (Inl e, st') \<Rightarrow> (Inl e, st')
      | (Inr v, st') \<Rightarrow> k v st')"

definition not_awaited :: "'a promise \<Rightarrow> state \<Rightarrow> state" where
  "not_awaited p st =
     (case p of
        Inl e \<Rightarrow> st\<lparr>unhandled := unhandled st @ [e]\<rparr>
      | Inr v \<Rightarrow> st)"

text \<open>
  \<^verbatim>\<open>Promise.all(ps)\<close>: rejected with the error of the promise that rejects first in
  time, fulfilled with all values in the order of \<open>ps\<close> when none rejects.
\<close>

definition Promise_all :: "nat list \<Rightarrow> 'a promise list \<Rightarrow> 'a list promise" where
  "Promise_all order ps =
     (case find (\<lambda>i. i < length ps \<and> isl (ps ! i)) (order @ [0..<length ps]) of
        Some i \<Rightarrow> Inl (projl (ps ! i))
      | None \<Rightarrow> Inr (map projr ps))"

text \<open>The continuation forms of a statement that logs, and of a call whose promise is dropped.\<close>

definition console_info ::
  "string \<Rightarrow> (state \<Rightarrow> 'a promise \<times> state) \<Rightarrow> state \<Rightarrow> 'a promise \<times> state" where
  "console_info message k st = k (st\<lparr>console := console st @ [ConsoleInfo message]\<rparr>)"

definition call_without_await ::
  "'a promise \<Rightarrow> (state \<Rightarrow> 'b promise \<times> state) \<Rightarrow> state \<Rightarrow> 'b promise \<times> state" where
  "call_without_await p k st = k (not_awaited p st)"

section \<open>The class \<^verbatim>\<open>CircleCIArtifacts\<close>\<close>

text \<open>
  \<^verbatim>\<open>constructor(circleCIToken) { this.circleCIToken = {'Circle-Token': circleCIToken}; }\<close>
  A new object has no other property set.
\<close>

definition constructor :: "string \<Rightarrow> state \<Rightarrow> state" where
  "constructor token st =
     st\<lparr>circleCIToken := Some [(''Circle-Token'', token)],
        circleCIHeaders := None,
        jobs := None\<rparr>"

text \<open>\<^verbatim>\<open>request(options)\<close>: the request is issued (and logged) when the call is made.\<close>

definition issue :: "options \<Rightarrow> state \<Rightarrow> state" where
  "issue opts st = st\<lparr>requests := requests st @ [opts]\<rparr>"

definition throwIfPendingOrUnsuccessfulWorkflow :: "workflow option \<Rightarrow> unit promise" where
  "throwIfPendingOrUnsuccessfulWorkflow workflow =
     (case workflow of
        None \<Rightarrow> Inl (TypeError ''status'')
      | Some wflow \<Rightarrow>
          if wf_status wflow \<noteq> ''success''
          then Inl (Error (''The '' @ wf_name wflow @ '' workflow status is '' @ wf_status wflow @
                 ''. Please, wait for it to be finished before start testing or fix it''))
          else Inr ())"

definition pipeline_options :: "string \<Rightarrow> (string \<times> string) list option \<Rightarrow> options" where
  "pipeline_options branchName headers =
     \<lparr>opt_method = ''GET'',
      opt_url = ''https://circleci.com/api/v2/project/gh/facebook/react-native/pipeline'',
      opt_qs = Some [(''branch'', branchName)],
      opt_headers = headers\<rparr>"

definition getLastCircleCIPipelineID ::
  "world \<Rightarrow> string \<Rightarrow> state \<Rightarrow> pipeline promise \<times> state" where
  "getLastCircleCIPipelineID w branchName st =
     (let opts = pipeline_options branchName (circleCIHeaders st) in
      (case pipelines_api w (length (requests st)) opts of
         Inl e \<Rightarrow> Inl e
       | Inr response \<Rightarrow>
           (if ToBoolean (resp_error response)
              then Inl (ReferenceError ''error'')
              else
                (case resp_items response of
                   [] \<Rightarrow> Inl (TypeError ''id'')
                 | lastPipeline # rest \<Rightarrow>
                     Inr \<lparr>p_id = p_id lastPipeline, p_number = p_number lastPipeline\<rparr>)),
       issue opts st))"

definition workflow_options :: "string \<Rightarrow> (string \<times> string) list option \<Rightarrow> options" where
  "workflow_options pipelineId headers =
     \<lparr>opt_method = ''GET'',
      opt_url = ''https://circleci.com/api/v2/pipeline/'' @ pipelineId @ ''/workflow'',
      opt_qs = None,
      opt_headers = headers\<rparr>"

definition getSpecificWorkflow ::
  "world \<Rightarrow> string \<Rightarrow> string \<Rightarrow> state \<Rightarrow> workflow option promise \<times> state" where
  "getSpecificWorkflow w pipelineId workflowName st =
     (let opts = workflow_options pipelineId (circleCIHeaders st) in
      (case workflows_api w (length (requests st)) opts of
         Inl e \<Rightarrow> Inl e
       | Inr response \<Rightarrow>
           (if ToBoolean (resp_error response)
              then Inl (ReferenceError ''error'')
              else
                Inr (find (\<lambda>workflow. wf_name workflow = workflowName) (resp_items response))),
       issue opts st))"

definition getPackageAndReleaseWorkflow ::
  "world \<Rightarrow> string \<Rightarrow> state \<Rightarrow> workflow option promise \<times> state" where
  "getPackageAndReleaseWorkflow w pipelineId =
     getSpecificWorkflow w pipelineId ''package_and_publish_release_dryrun''"

definition getTestsWorkflow ::
  "world \<Rightarrow> string \<Rightarrow> state \<Rightarrow> workflow option promise \<times> state" where
  "getTestsWorkflow w pipelineId = getSpecificWorkflow w pipelineId ''tests''"

definition job_options :: "string \<Rightarrow> (string \<times> string) list option \<Rightarrow> options" where
  "job_options workflowId headers =
     \<lparr>opt_method = ''GET'',
      opt_url = ''https://circleci.com/api/v2/workflow/'' @ workflowId @ ''/job'',
      opt_qs = None,
      opt_headers = headers\<rparr>"

definition getCircleCIJobs :: "world \<Rightarrow> string \<Rightarrow> state \<Rightarrow> job list promise \<times> state" where
  "getCircleCIJobs w workflowId st =
     (let opts = job_options workflowId (circleCIHeaders st) in
      (case jobs_api w (length (requests st)) opts of
         Inl e \<Rightarrow> Inl e
       | Inr response \<Rightarrow>
           (if ToBoolean (resp_error response)
              then Inl (ReferenceError ''error'')
              else Inr (resp_items response)),
       issue opts st))"

definition artifacts_options :: "nat \<Rightarrow> (string \<times> string) list option \<Rightarrow> options" where
  "artifacts_options jobNumber headers =
     \<lparr>opt_method = ''GET'',
      opt_url = ''https://circleci.com/api/v2/project/gh/facebook/react-native/'' @
                toString_nat jobNumber @ ''/artifacts'',
      opt_qs = None,
      opt_headers = headers\<rparr>"

definition getJobsArtifacts :: "world \<Rightarrow> nat \<Rightarrow> state \<Rightarrow> artifact list promise \<times> state" where
  "getJobsArtifacts w jobNumber st =
     (let opts = artifacts_options jobNumber (circleCIHeaders st) in
      (case artifacts_api w (length (requests st)) opts of
         Inl e \<Rightarrow> Inl e
       | Inr response \<Rightarrow>
           (if ToBoolean (resp_error response)
              then Inl (ReferenceError ''error'')
              else Inr (resp_items response)),
       issue opts st))"

text \<open>
  The array literal \<^verbatim>\<open>jobsPromises\<close> of \<^verbatim>\<open>initialize\<close>, then
  \<^verbatim>\<open>await Promise.all(jobsPromises)\<close> and the assignment to \<^verbatim>\<open>this.jobs\<close>. The elements
  are evaluated left to right: each reads \<^verbatim>\<open>.id\<close> of its workflow (a \<open>TypeError\<close>,
  thrown in \<^verbatim>\<open>initialize\<close> itself, when \<^verbatim>\<open>find\<close> had returned \<^verbatim>\<open>undefined\<close>) and then
  issues its request. Both requests are issued before either promise is awaited. When
  the second element throws, the first promise is left with nothing awaiting it.
\<close>

definition fetch_jobs ::
  "world \<Rightarrow> workflow option \<Rightarrow> workflow option \<Rightarrow> state \<Rightarrow> unit promise \<times> state" where
  "fetch_jobs w packageAndReleaseWorkflow testsWorkflow st =
     (case packageAndReleaseWorkflow of
        None \<Rightarrow> (Inl (TypeError ''id''), st)
      | Some prw \<Rightarrow>
          (case getCircleCIJobs w (wf_id prw) st of
             (p1, st1) \<Rightarrow>
               (case testsWorkflow of
                  None \<Rightarrow> (Inl (TypeError ''id''), not_awaited p1 st1)
                | Some tw \<Rightarrow>
                    (case getCircleCIJobs w (wf_id tw) st1 of
                       (p2, st2) \<Rightarrow>
                         (case Promise_all (settle_order w) [p1, p2] of
                            Inl e \<Rightarrow> (Inl e, st2)
                          | Inr jobsResults \<Rightarrow>
                              (Inr (),
                               st2\<lparr>jobs := Some (concat (map (\<lambda>jobs. jobs) jobsResults))\<rparr>))))))"

text \<open>
  \<^verbatim>\<open>initialize(branchName)\<close>. The two calls of the \<^verbatim>\<open>async\<close> method
  \<^verbatim>\<open>#throwIfPendingOrUnsuccessfulWorkflow\<close> are statements without \<^verbatim>\<open>await\<close>.
\<close>

definition initialize :: "world \<Rightarrow> string \<Rightarrow> state \<Rightarrow> unit promise \<times> state" where
  "initialize w branchName =
     console_info ''Getting CircleCI infoes'' (
     await (getLastCircleCIPipelineID w branchName) (\<lambda>pipeline.
     await (getPackageAndReleaseWorkflow w (p_id pipeline)) (\<lambda>packageAndReleaseWorkflow.
     call_without_await (throwIfPendingOrUnsuccessfulWorkflow packageAndReleaseWorkflow) (
     await (getTestsWorkflow w (p_id pipeline)) (\<lambda>testsWorkflow.
     call_without_await (throwIfPendingOrUnsuccessfulWorkflow testsWorkflow) (
     fetch_jobs w packageAndReleaseWorkflow testsWorkflow))))))"

text \<open>
  \<^verbatim>\<open>#findUrlForJob(jobName, artifactPath)\<close>, the lookup behind every
  \<^verbatim>\<open>artifactURL...\<close> method. The argument \<^verbatim>\<open>job.job_number\<close> is evaluated before
  \<^verbatim>\<open>#getJobsArtifacts\<close> is called.
\<close>

definition findUrlForJob :: "world \<Rightarrow> string \<Rightarrow> string \<Rightarrow> state \<Rightarrow> string promise \<times> state" where
  "findUrlForJob w jobName artifactPath st =
     (case jobs st of
        None \<Rightarrow> (Inl (TypeError ''find''), st)
      | Some js \<Rightarrow>
          (case find (\<lambda>j. job_name j = jobName) js of
             None \<Rightarrow> (Inl (TypeError ''job_number''), st)
           | Some job \<Rightarrow>
               await (getJobsArtifacts w (job_number job)) (\<lambda>artifacts st'.
                 (case find (\<lambda>artifact. indexOf (art_path artifact) artifactPath > - 1) artifacts of
                    None \<Rightarrow> (Inl (TypeError ''url''), st')
                  | Some found \<Rightarrow> (Inr (art_url found), st'))) st))"

definition artifactURLHermesDebug :: "world \<Rightarrow> state \<Rightarrow> string promise \<times> state" where
  "artifactURLHermesDebug w =
     findUrlForJob w ''build_hermes_macos-Debug'' ''hermes-ios-debug.tar.gz''"

definition artifactURLForMavenLocal :: "world \<Rightarrow> state \<Rightarrow> string promise \<times> state" where
  "artifactURLForMavenLocal w =
     findUrlForJob w ''build_and_publish_npm_package-2'' ''maven-local.zip''"

definition artifactURLForPackagedReactNative :: "world \<Rightarrow> state \<Rightarrow> string promise \<times> state" where
  "artifactURLForPackagedReactNative w =
     findUrlForJob w ''build_and_publish_npm_package-2'' ''react-native-1000.0.0-''"

definition artifactURLForJSCRNTesterAPK :: "world \<Rightarrow> state \<Rightarrow> string promise \<times> state" where
  "artifactURLForJSCRNTesterAPK w =
     findUrlForJob w ''test_android'' ''rntester-apk/jsc/release/app-jsc-arm64-v8a-release.apk''"

section \<open>Shell commands\<close>

text \<open>\<^verbatim>\<open>exec(command)\<close> of shelljs: runs the command to its end and returns its output.\<close>

definition exec :: "world \<Rightarrow> string \<Rightarrow> state \<Rightarrow> string \<times> state" where
  "exec w command st =
     (case shell w (length (execs st)) command (files st) of
        (out, fs) \<Rightarrow> (out, st\<lparr>execs := execs st @ [command], files := fs\<rparr>))"


text \<open>
  \<^verbatim>\<open>artifactURLForHermesRNTesterAPK\<close>: the architecture is what \<^verbatim>\<open>adb\<close> prints, spliced
  into the path as it is.
\<close>

definition artifactURLForHermesRNTesterAPK :: "world \<Rightarrow> state \<Rightarrow> string promise \<times> state" where
  "artifactURLForHermesRNTesterAPK w st =
     (case exec w ''adb shell getprop ro.product.cpu.abi'' st of
        (emulatorArch, st') \<Rightarrow>
          findUrlForJob w ''test_android''
            (''rntester-apk/hermes/release/app-hermes-'' @ emulatorArch @ ''-release.apk'') st')"

section \<open>The shell and the two tools of \<^verbatim>\<open>downloadArtifact\<close>\<close>










section \<open>The module-level variant\<close>

text \<open>
  The same logic also exists as free functions over module variables (the last of the
  variants of this file). Its request helpers are the methods above word for word, with
  the variables \<^verbatim>\<open>circleCIHeaders\<close> and \<^verbatim>\<open>jobs\<close> in place of the properties of the same
  names, so they are modelled by the same functions on the same state fields. Its
  \<^verbatim>\<open>initialize(circleCIToken, baseTempPath, branchName)\<close> assigns
  \<^verbatim>\<open>circleCIHeaders = {'Circle-Token': circleCIToken}\<close> before the first request.
\<close>

definition module_initialize ::
  "world \<Rightarrow> string \<Rightarrow> string \<Rightarrow> string \<Rightarrow> state \<Rightarrow> unit promise \<times> state" where
  "module_initialize w token baseTempPath branchName =
     console_info ''Getting CircleCI infoes'' (\<lambda>st0.
       (let st1 = st0\<lparr>circleCIHeaders := Some [(''Circle-Token'', token)]\<rparr>;
            st2 = st1\<lparr>baseTemporaryPath := Some baseTempPath\<rparr>;
            st3 = snd (exec w (''mkdir -p '' @ baseTempPath) st2)
        in (await (getLastCircleCIPipelineID w branchName) (\<lambda>pipeline.
            await (getPackageAndReleaseWorkflow w (p_id pipeline)) (\<lambda>packageAndReleaseWorkflow.
            call_without_await (throwIfPendingOrUnsuccessfulWorkflow packageAndReleaseWorkflow) (
            await (getTestsWorkflow w (p_id pipeline)) (\<lambda>testsWorkflow.
            call_without_await (throwIfPendingOrUnsuccessfulWorkflow testsWorkflow) (
            fetch_jobs w packageAndReleaseWorkflow testsWorkflow)))))) st3))"

section \<open>Android emulator\<close>

definition emulatorCommand :: "world \<Rightarrow> string" where
  "emulatorCommand w =
     (case env_ANDROID_HOME w of
        None \<Rightarrow> ''emulator''
      | Some home \<Rightarrow>
          if ToBoolean (JsString home) then home @ ''/emulator/emulator'' else ''emulator'')"

definition getEmulators :: "world \<Rightarrow> state \<Rightarrow> string list \<times> state" where
  "getEmulators w st =
     (case exec w (emulatorCommand w @ '' -list-avds'') st of
        (emulatorsOutput, st') \<Rightarrow>
          (filter (\<lambda>name. name \<noteq> []) (split emulatorsOutput (os_EOL w)), st'))"

text \<open>\<^verbatim>\<open>spawn\<close> either throws (nothing is started) or starts the detached process.\<close>

definition launchEmulator :: "world \<Rightarrow> string \<Rightarrow> state \<Rightarrow> (string + unit) \<times> state" where
  "launchEmulator w emulatorName st =
     (case spawn_throws w (emulatorCommand w) [''@'' @ emulatorName] of
        Some err \<Rightarrow> (Inl err, st)
      | None \<Rightarrow>
          (Inr (), st\<lparr>spawned := spawned st @ [(emulatorCommand w, [''@'' @ emulatorName])]\<rparr>))"

record launch_result =
  success :: bool
  launch_error :: "string option"

definition tryLaunchEmulator :: "world \<Rightarrow> state \<Rightarrow> launch_result \<times> state" where
  "tryLaunchEmulator w st =
     (case getEmulators w st of
        (emulators, st1) \<Rightarrow>
          if length emulators > 0
          then (case launchEmulator w (emulators ! 0) st1 of
                  (Inr u, st2) \<Rightarrow> (\<lparr>success = True, launch_error = None\<rparr>, st2)
                | (Inl err, st2) \<Rightarrow> (\<lparr>success = False, launch_error = Some err\<rparr>, st2))
          else (\<lparr>success = False,
                 launch_error = Some ''No emulators found as an output of `emulator -list-avds`''\<rparr>,
                st1))"

definition hasConnectedDevice :: "world \<Rightarrow> state \<Rightarrow> bool \<times> state" where
  "hasConnectedDevice w st =
     (case exec w ''adb devices | grep -v emulator'' st of
        (out, st') \<Rightarrow>
          (let physicalDevices = drop 1 (split (trim out) [CHR 0x0A])
           in (length physicalDevices > 0, st')))"

text \<open>
  \<^verbatim>\<open>if (hasConnectedDevice) { ... return; }\<close>: the condition is the identifier, whose
  value is the function declared above, not a call of it.
\<close>

definition maybeLaunchAndroidEmulator :: "world \<Rightarrow> state \<Rightarrow> state" where
  "maybeLaunchAndroidEmulator w st =
     (if ToBoolean (JsFunction ''hasConnectedDevice'')
      then st\<lparr>console := console st @
                 [ConsoleInfo ''Already have a device connected. Skip launching emulator.'']\<rparr>
      else
        (case tryLaunchEmulator w st of
           (result, st1) \<Rightarrow>
             if success result
             then st1\<lparr>console := console st1 @ [ConsoleInfo ''Successfully launched emulator.'']\<rparr>
             else st1\<lparr>console := console st1 @
                    [ConsoleError (''Failed to launch emulator. Reason: '' @
                       (case launch_error result of
                          None \<Rightarrow> []
                        | Some err \<Rightarrow> if ToBoolean (JsString err) then err else []) @ ''.''),
                     ConsoleWarn ''Please launch an emulator manually or connect a device. Otherwise app may fail to launch.'']\<rparr>))"

section \<open>Example runs\<close>

text \<open>
  A service with two pipelines on the branch, the two workflows, one job in each workflow
  and four artifacts; a machine with no device attached and one emulator image
  (\<open>example_shell\<close> gives the output of the two commands that ask); variants of the
  service; and, for \<^verbatim>\<open>downloadArtifact\<close>, the shell model over a web with one URL.
\<close>

definition empty_state :: state where
  "empty_state =
     \<lparr>circleCIToken = None, circleCIHeaders = None, jobs = None, baseTemporaryPath = None,
      requests = [],
      unhandled = [], console = [], execs = [], spawned = [], files = (\<lambda>path. None)\<rparr>"

definition example_workflows :: "string \<Rightarrow> string \<Rightarrow> workflow list" where
  "example_workflows status1 status2 =
     [\<lparr>wf_id = ''w1'', wf_name = ''package_and_publish_release_dryrun'', wf_status = status1\<rparr>,
      \<lparr>wf_id = ''w2'', wf_name = ''tests'', wf_status = status2\<rparr>]"

definition example_shell :: "nat \<Rightarrow> string \<Rightarrow> files \<Rightarrow> string \<times> files" where
  "example_shell n command fs =
     (if command = ''adb devices | grep -v emulator''
        then (''List of devices attached'' @ [CHR 0x0A, CHR 0x0A], fs)
      else if command = ''emulator -list-avds'' then (''Pixel_7'' @ [CHR 0x0A], fs)
      else ([], fs))"

definition example_world :: world where
  "example_world =
     \<lparr>pipelines_api = (\<lambda>n opts. Inr \<lparr>resp_error = JsUndefined,
         resp_items = [\<lparr>p_id = ''p1'', p_number = 42\<rparr>, \<lparr>p_id = ''p0'', p_number = 41\<rparr>]\<rparr>),
      workflows_api = (\<lambda>n opts. Inr \<lparr>resp_error = JsUndefined,
         resp_items = example_workflows ''success'' ''success''\<rparr>),
      jobs_api = (\<lambda>n opts. Inr \<lparr>resp_error = JsUndefined,
         resp_items =
           (if opt_url opts = ''https://circleci.com/api/v2/workflow/w1/job''
            then [\<lparr>job_name = ''build_hermes_macos-Debug'', job_number = 7\<rparr>]
            else [\<lparr>job_name = ''test_android'', job_number = 19\<rparr>])\<rparr>),
      artifacts_api = (\<lambda>n opts. Inr \<lparr>resp_error = JsUndefined,
         resp_items =
           [\<lparr>art_path = ''apk/hermes/app-hermes-debug.apk'', art_url = ''https://ci.test/1''\<rparr>,
            \<lparr>art_path = ''apk/hermes/app-hermes-release.apk'', art_url = ''https://ci.test/2''\<rparr>,
            \<lparr>art_path = ''apk/jsc/app-jsc-release.apk'', art_url = ''https://ci.test/3''\<rparr>,
            \<lparr>art_path = ''old/apk/jsc/app-jsc-release.apk'', art_url = ''https://ci.test/4''\<rparr>]\<rparr>),
      settle_order = [1, 0],
      shell = example_shell,
      spawn_throws = (\<lambda>command args. None),
      env_ANDROID_HOME = None,
      os_EOL = [CHR 0x0A]\<rparr>"

definition initialized_state :: state where
  "initialized_state =
     empty_state\<lparr>circleCIToken := Some [(''Circle-Token'', ''token'')],
       jobs := Some [\<lparr>job_name = ''build_hermes_macos-Debug'', job_number = 7\<rparr>,
                     \<lparr>job_name = ''test_android'', job_number = 19\<rparr>]\<rparr>"

definition status_world :: "string \<Rightarrow> string \<Rightarrow> world" where
  "status_world status1 status2 =
     example_world\<lparr>workflows_api := (\<lambda>n opts. Inr \<lparr>resp_error = JsUndefined,
        resp_items = example_workflows status1 status2\<rparr>)\<rparr>"

definition workflows_world :: "workflow list \<Rightarrow> world" where
  "workflows_world wfs =
     example_world\<lparr>workflows_api := (\<lambda>n opts. Inr \<lparr>resp_error = JsUndefined, resp_items = wfs\<rparr>)\<rparr>"

definition no_pipeline_world :: world where
  "no_pipeline_world =
     example_world\<lparr>pipelines_api := (\<lambda>n opts. Inr \<lparr>resp_error = JsUndefined, resp_items = []\<rparr>)\<rparr>"

definition error_world :: world where
  "error_world =
     example_world\<lparr>
       pipelines_api := (\<lambda>n opts. Inr \<lparr>resp_error = JsObject ''ETIMEDOUT'', resp_items = []\<rparr>),
       workflows_api := (\<lambda>n opts. Inr \<lparr>resp_error = JsObject ''ETIMEDOUT'', resp_items = []\<rparr>),
       jobs_api := (\<lambda>n opts. Inr \<lparr>resp_error = JsString ''ECONNRESET'', resp_items = []\<rparr>),
       artifacts_api := (\<lambda>n opts. Inr \<lparr>resp_error = JsNumber 503, resp_items = []\<rparr>)\<rparr>"

definition jobs_failing_world :: world where
  "jobs_failing_world =
     example_world\<lparr>jobs_api := (\<lambda>n opts.
        if opt_url opts = ''https://circleci.com/api/v2/workflow/w1/job''
        then Inl (Error ''ECONNRESET'')
        else Inr \<lparr>resp_error = JsObject ''ETIMEDOUT'', resp_items = []\<rparr>)\<rparr>"





section \<open>Predicates on runs\<close>

text \<open>
  \<open>adds_requests_with h st st'\<close>: from \<open>st\<close> to \<open>st'\<close> the headers property is \<open>h\<close> and
  every request that was added carries the headers \<open>h\<close>.
\<close>

definition adds_requests_with ::
  "(string \<times> string) list option \<Rightarrow> state \<Rightarrow> state \<Rightarrow> bool" where
  "adds_requests_with h st st' =
     (circleCIHeaders st' = h \<and>
      set (requests st') \<subseteq> set (requests st) \<union> {r. opt_headers r = h})"

text \<open>
  \<open>with_statuses f w\<close> is the service \<open>w\<close> with the status of every workflow \<open>x\<close> it
  answers replaced by \<open>f x\<close>. \<open>apart_from_unhandled st st'\<close>: the two states differ at
  most in the unhandled rejections.
\<close>

definition with_statuses :: "(workflow \<Rightarrow> string) \<Rightarrow> world \<Rightarrow> world" where
  "with_statuses f w =
     w\<lparr>workflows_api := (\<lambda>n opts.
          case workflows_api w n opts of
            Inl e \<Rightarrow> Inl e
          | Inr r \<Rightarrow> Inr (r\<lparr>resp_items := map (\<lambda>x. x\<lparr>wf_status := f x\<rparr>) (resp_items r)\<rparr>))\<rparr>"

definition apart_from_unhandled :: "state \<Rightarrow> state \<Rightarrow> bool" where
  "apart_from_unhandled st st' = (st'\<lparr>unhandled := unhandled st\<rparr> = st)"

section \<open>Facts about the helpers\<close>

subsection \<open>Substring search and \<^verbatim>\<open>find\<close>\<close>

lemma indexOf_from_contains: "(indexOf_from i s t > - 1) = sublist t s"
  by (induction s arbitrary: i) (auto simp: sublist_Cons_right)

lemma indexOf_contains: "(indexOf s t > - 1) = sublist t s"
  by (simp add: indexOf_def indexOf_from_contains)

lemma find_first_match:
  "xs = pre @ a # post \<Longrightarrow> P a \<Longrightarrow> (\<forall>b\<in>set pre. \<not> P b) \<Longrightarrow> find P xs = Some a"
  by (induction pre arbitrary: xs) auto

lemma find_absent: "x \<notin> f ` set xs \<Longrightarrow> find (\<lambda>y. f y = x) xs = None"
  by (auto simp: find_None_iff)

subsection \<open>Promises\<close>

lemma Promise_all_pair:
  "(Promise_all order [p1, p2] = Inr rs) = (\<exists>a b. p1 = Inr a \<and> p2 = Inr b \<and> rs = [a, b])"
proof (cases p1)
  case (Inl e)
  have "0 \<in> set (order @ [0..<length [p1, p2]])" by simp
  then have "find (\<lambda>i. i < length [p1, p2] \<and> isl ([p1, p2] ! i)) (order @ [0..<length [p1, p2]]) \<noteq> None"
    unfolding find_None_iff using Inl by (intro notI) force
  then show ?thesis using Inl by (auto simp: Promise_all_def split: option.splits)
next
  case a: (Inr a)
  show ?thesis
  proof (cases p2)
    case (Inl e)
    have "1 \<in> set (order @ [0..<length [p1, p2]])" by simp
    then have "find (\<lambda>i. i < length [p1, p2] \<and> isl ([p1, p2] ! i)) (order @ [0..<length [p1, p2]]) \<noteq> None"
      unfolding find_None_iff using Inl by (intro notI) force
    then show ?thesis using Inl by (auto simp: Promise_all_def split: option.splits)
  next
    case (Inr b)
    have "find (\<lambda>i. i < length [p1, p2] \<and> isl ([p1, p2] ! i)) (order @ [0..<length [p1, p2]]) = None"
      unfolding find_None_iff using a Inr by (auto simp: nth_Cons' less_Suc_eq)
    then show ?thesis using a Inr by (auto simp: Promise_all_def)
  qed
qed

lemma Promise_all_fulfilled: "Promise_all order [Inr a, Inr b] = Inr [a, b]"
  by (simp add: Promise_all_pair)

lemma await_Inr: "fst (m st) = Inr x \<Longrightarrow> await m k st = k x (snd (m st))"
  by (cases "m st") (simp add: await_def)

lemma await_Inl: "fst (m st) = Inl e \<Longrightarrow> await m k st = (Inl e, snd (m st))"
  by (cases "m st") (simp add: await_def)

lemma await_fulfilledD: "fst (await m k st) = Inr v \<Longrightarrow> \<exists>x. fst (m st) = Inr x"
  by (cases "m st"; cases "fst (m st)") (auto simp: await_def)

lemma call_without_await_fun: "call_without_await p k = (\<lambda>st. k (not_awaited p st))"
  by (rule ext) (simp add: call_without_await_def)

subsection \<open>What each request helper does to the state, and when it fulfils\<close>

lemma issue_fields [simp]:
  "requests (issue opts st) = requests st @ [opts]"
  "circleCIHeaders (issue opts st) = circleCIHeaders st"
  "jobs (issue opts st) = jobs st"
  "unhandled (issue opts st) = unhandled st"
  by (simp_all add: issue_def)

lemma not_awaited_fields [simp]:
  "requests (not_awaited p st) = requests st"
  "circleCIHeaders (not_awaited p st) = circleCIHeaders st"
  "jobs (not_awaited p st) = jobs st"
  by (simp_all add: not_awaited_def split: sum.splits)

lemma getLastCircleCIPipelineID_state [simp]:
  "snd (getLastCircleCIPipelineID w branchName st) =
     issue (pipeline_options branchName (circleCIHeaders st)) st"
  by (simp add: getLastCircleCIPipelineID_def Let_def)

lemma getSpecificWorkflow_state [simp]:
  "snd (getSpecificWorkflow w pipelineId workflowName st) =
     issue (workflow_options pipelineId (circleCIHeaders st)) st"
  by (simp add: getSpecificWorkflow_def Let_def)

lemma getCircleCIJobs_state [simp]:
  "snd (getCircleCIJobs w workflowId st) = issue (job_options workflowId (circleCIHeaders st)) st"
  by (simp add: getCircleCIJobs_def Let_def)

lemma getLastCircleCIPipelineID_fulfilled:
  "(fst (getLastCircleCIPipelineID w branchName st) = Inr pl) =
   (\<exists>r x xs. pipelines_api w (length (requests st)) (pipeline_options branchName (circleCIHeaders st)) = Inr r
        \<and> \<not> ToBoolean (resp_error r) \<and> resp_items r = x # xs
        \<and> pl = \<lparr>p_id = p_id x, p_number = p_number x\<rparr>)"
  by (auto simp: getLastCircleCIPipelineID_def Let_def split: sum.splits option.splits list.splits)

lemma getSpecificWorkflow_fulfilled:
  "(fst (getSpecificWorkflow w pipelineId workflowName st) = Inr found) =
   (\<exists>r. workflows_api w (length (requests st)) (workflow_options pipelineId (circleCIHeaders st)) = Inr r
        \<and> \<not> ToBoolean (resp_error r)
        \<and> found = find (\<lambda>workflow. wf_name workflow = workflowName) (resp_items r))"
  by (auto simp: getSpecificWorkflow_def Let_def split: sum.splits option.splits)

lemma getCircleCIJobs_fulfilled:
  "(fst (getCircleCIJobs w workflowId st) = Inr js) =
   (\<exists>r. jobs_api w (length (requests st)) (job_options workflowId (circleCIHeaders st)) = Inr r
        \<and> \<not> ToBoolean (resp_error r) \<and> resp_items r = js)"
  by (auto simp: getCircleCIJobs_def Let_def split: sum.splits option.splits)

subsection \<open>The job requests\<close>

lemma fetch_jobs_success:
  assumes "fst (fetch_jobs w prw tw st) = Inr ()"
  shows "\<exists>p t r1 r2. prw = Some p \<and> tw = Some t
      \<and> jobs_api w (length (requests st)) (job_options (wf_id p) (circleCIHeaders st)) = Inr r1 \<and> \<not> ToBoolean (resp_error r1)
      \<and> jobs_api w (length (requests st) + 1) (job_options (wf_id t) (circleCIHeaders st)) = Inr r2 \<and> \<not> ToBoolean (resp_error r2)
      \<and> jobs (snd (fetch_jobs w prw tw st)) = Some (resp_items r1 @ resp_items r2)
      \<and> requests (snd (fetch_jobs w prw tw st)) =
          requests st @ [job_options (wf_id p) (circleCIHeaders st), job_options (wf_id t) (circleCIHeaders st)]"
proof -
  from assms obtain p where p: "prw = Some p"
    by (cases prw) (auto simp: fetch_jobs_def)
  from assms p obtain t where t: "tw = Some t"
    by (cases tw) (auto simp: fetch_jobs_def split: prod.splits)
  let ?st1 = "issue (job_options (wf_id p) (circleCIHeaders st)) st"
  obtain p1 where p1: "getCircleCIJobs w (wf_id p) st = (p1, ?st1)"
    by (metis getCircleCIJobs_state prod.collapse)
  let ?st2 = "issue (job_options (wf_id t) (circleCIHeaders st)) ?st1"
  obtain p2 where p2: "getCircleCIJobs w (wf_id t) ?st1 = (p2, ?st2)"
    by (metis getCircleCIJobs_state issue_fields(2) prod.collapse)
  from assms p t p1 p2 obtain rs where rs: "Promise_all (settle_order w) [p1, p2] = Inr rs"
    and res: "snd (fetch_jobs w prw tw st) = ?st2\<lparr>jobs := Some (concat (map (\<lambda>jobs. jobs) rs))\<rparr>"
    by (auto simp: fetch_jobs_def split: sum.splits)
  from rs obtain a b where ab: "p1 = Inr a" "p2 = Inr b" "rs = [a, b]"
    by (auto simp: Promise_all_pair)
  from p1 ab have "fst (getCircleCIJobs w (wf_id p) st) = Inr a" by simp
  then obtain r1 where r1: "jobs_api w (length (requests st)) (job_options (wf_id p) (circleCIHeaders st)) = Inr r1"
      "\<not> ToBoolean (resp_error r1)" "resp_items r1 = a"
    by (auto simp: getCircleCIJobs_fulfilled)
  from p2 ab have "fst (getCircleCIJobs w (wf_id t) ?st1) = Inr b" by simp
  then obtain r2 where r2: "jobs_api w (length (requests st) + 1) (job_options (wf_id t) (circleCIHeaders st)) = Inr r2"
      "\<not> ToBoolean (resp_error r2)" "resp_items r2 = b"
    by (auto simp: getCircleCIJobs_fulfilled)
  show ?thesis
    using p t r1 r2 res ab by (simp add: issue_def)
qed

lemma fetch_jobs_absent:
  "prw = None \<or> tw = None \<Longrightarrow> fst (fetch_jobs w prw tw st) = Inl (TypeError ''id'')"
  by (auto simp: fetch_jobs_def split: option.splits prod.splits)

lemma fetch_jobs_requests: "prefix (requests st) (requests (snd (fetch_jobs w prw tw st)))"
  by (auto simp: fetch_jobs_def split: option.splits prod.splits sum.splits
      dest!: arg_cong[where f = snd])

subsection \<open>The steps of \<^verbatim>\<open>initialize\<close>\<close>

lemma await_requests:
  assumes "\<And>s. prefix (requests s) (requests (snd (m s)))"
    and "\<And>x s. prefix (requests s) (requests (snd (k x s)))"
  shows "prefix (requests st) (requests (snd (await m k st)))"
proof (cases "fst (m st)")
  case (Inl e)
  then show ?thesis using assms(1)[of st] by (simp add: await_Inl)
next
  case (Inr x)
  then show ?thesis
    using assms(1)[of st] assms(2)[of "snd (m st)" x] by (auto simp: await_Inr)
qed

lemma initialize_unfold:
  "initialize w branchName st =
     await (getLastCircleCIPipelineID w branchName) (\<lambda>pipeline.
     await (getSpecificWorkflow w (p_id pipeline) ''package_and_publish_release_dryrun'')
       (\<lambda>packageAndReleaseWorkflow st3.
     await (getSpecificWorkflow w (p_id pipeline) ''tests'') (\<lambda>testsWorkflow st5.
       fetch_jobs w packageAndReleaseWorkflow testsWorkflow
         (not_awaited (throwIfPendingOrUnsuccessfulWorkflow testsWorkflow) st5))
       (not_awaited (throwIfPendingOrUnsuccessfulWorkflow packageAndReleaseWorkflow) st3)))
     (st\<lparr>console := console st @ [ConsoleInfo ''Getting CircleCI infoes'']\<rparr>)"
  by (simp add: initialize_def console_info_def call_without_await_fun
      getPackageAndReleaseWorkflow_def getTestsWorkflow_def)

lemma after_workflow_requests:
  "prefix (requests st3)
     (requests (snd (await (getSpecificWorkflow w pipelineId ''tests'') (\<lambda>testsWorkflow st5.
       fetch_jobs w prw testsWorkflow
         (not_awaited (throwIfPendingOrUnsuccessfulWorkflow testsWorkflow) st5))
       (not_awaited p st3))))"
proof -
  have "prefix (requests (not_awaited p st3))
     (requests (snd (await (getSpecificWorkflow w pipelineId ''tests'') (\<lambda>testsWorkflow st5.
       fetch_jobs w prw testsWorkflow
         (not_awaited (throwIfPendingOrUnsuccessfulWorkflow testsWorkflow) st5))
       (not_awaited p st3))))"
  proof (rule await_requests)
    fix s show "prefix (requests s) (requests (snd (getSpecificWorkflow w pipelineId ''tests'' s)))"
      by simp
  next
    fix x s
    show "prefix (requests s) (requests (snd (fetch_jobs w prw x
            (not_awaited (throwIfPendingOrUnsuccessfulWorkflow x) s))))"
      using fetch_jobs_requests[of "not_awaited (throwIfPendingOrUnsuccessfulWorkflow x) s" w prw x]
      by simp
  qed
  then show ?thesis by simp
qed

subsection \<open>The headers of the requests\<close>

lemma adds_refl: "circleCIHeaders st = h \<Longrightarrow> adds_requests_with h st st"
  by (simp add: adds_requests_with_def)

lemma adds_trans:
  "adds_requests_with h a b \<Longrightarrow> adds_requests_with h b c \<Longrightarrow> adds_requests_with h a c"
  by (auto simp: adds_requests_with_def)

lemma adds_not_awaited:
  "circleCIHeaders st = h \<Longrightarrow> adds_requests_with h st (not_awaited p st)"
  by (simp add: adds_requests_with_def)

lemma adds_issue:
  "circleCIHeaders st = h \<Longrightarrow> opt_headers opts = h \<Longrightarrow> adds_requests_with h st (issue opts st)"
  by (auto simp: adds_requests_with_def)

lemma getJobsArtifacts_state [simp]:
  "snd (getJobsArtifacts w jobNumber st) = issue (artifacts_options jobNumber (circleCIHeaders st)) st"
  by (simp add: getJobsArtifacts_def Let_def)

lemma adds_helpers:
  assumes "circleCIHeaders st = h"
  shows "adds_requests_with h st (snd (getLastCircleCIPipelineID w branchName st))"
    and "adds_requests_with h st (snd (getSpecificWorkflow w pipelineId workflowName st))"
    and "adds_requests_with h st (snd (getCircleCIJobs w workflowId st))"
    and "adds_requests_with h st (snd (getJobsArtifacts w jobNumber st))"
  using assms
  by (simp_all add: adds_issue pipeline_options_def workflow_options_def job_options_def
      artifacts_options_def)

lemma adds_await:
  assumes m: "\<And>s. circleCIHeaders s = h \<Longrightarrow> adds_requests_with h s (snd (m s))"
    and k: "\<And>x s. circleCIHeaders s = h \<Longrightarrow> adds_requests_with h s (snd (k x s))"
    and st: "circleCIHeaders st = h"
  shows "adds_requests_with h st (snd (await m k st))"
proof (cases "fst (m st)")
  case (Inl e)
  then show ?thesis using m[OF st] by (simp add: await_Inl)
next
  case (Inr x)
  have "circleCIHeaders (snd (m st)) = h"
    using m[OF st] by (simp add: adds_requests_with_def)
  from k[OF this, of x] m[OF st] show ?thesis
    using Inr by (auto simp: await_Inr intro: adds_trans)
qed

lemma adds_fetch_jobs:
  assumes "circleCIHeaders st = h"
  shows "adds_requests_with h st (snd (fetch_jobs w prw tw st))"
proof (cases prw)
  case None
  then show ?thesis using assms by (simp add: fetch_jobs_def adds_refl)
next
  case p: (Some p)
  let ?st1 = "snd (getCircleCIJobs w (wf_id p) st)"
  have a1: "adds_requests_with h st ?st1" by (rule adds_helpers(3)[OF assms])
  then have h1: "circleCIHeaders ?st1 = h" by (simp add: adds_requests_with_def)
  show ?thesis
  proof (cases tw)
    case None
    have "snd (fetch_jobs w prw tw st) = not_awaited (fst (getCircleCIJobs w (wf_id p) st)) ?st1"
      using p None by (simp add: fetch_jobs_def case_prod_beta)
    then show ?thesis
      using adds_trans[OF a1 adds_not_awaited[OF h1]] by simp
  next
    case (Some t)
    let ?st2 = "snd (getCircleCIJobs w (wf_id t) ?st1)"
    have a2: "adds_requests_with h st ?st2"
      by (rule adds_trans[OF a1 adds_helpers(3)[OF h1]])
    have "snd (fetch_jobs w prw tw st) = ?st2 \<or>
          (\<exists>js. snd (fetch_jobs w prw tw st) = ?st2\<lparr>jobs := js\<rparr>)"
      using p Some by (auto simp add: fetch_jobs_def case_prod_beta split: sum.splits)
    then show ?thesis
      using a2 by (auto simp: adds_requests_with_def)
  qed
qed

lemma adds_initialize:
  assumes "circleCIHeaders st = h"
  shows "adds_requests_with h st (snd (initialize w branchName st))"
proof -
  have k3: "adds_requests_with h s
      (snd (fetch_jobs w prw tw (not_awaited (throwIfPendingOrUnsuccessfulWorkflow tw) s)))"
    if "circleCIHeaders s = h" for prw tw and s :: state
    using adds_trans[OF adds_not_awaited[OF that] adds_fetch_jobs] that by simp
  have k2: "adds_requests_with h s
      (snd (await (getSpecificWorkflow w pipelineId ''tests'') (\<lambda>testsWorkflow st5.
         fetch_jobs w prw testsWorkflow
           (not_awaited (throwIfPendingOrUnsuccessfulWorkflow testsWorkflow) st5))
         (not_awaited (throwIfPendingOrUnsuccessfulWorkflow prw) s)))"
    if "circleCIHeaders s = h" for prw pipelineId and s :: state
  proof (rule adds_trans[OF adds_not_awaited[OF that]])
    show "adds_requests_with h (not_awaited (throwIfPendingOrUnsuccessfulWorkflow prw) s)
      (snd (await (getSpecificWorkflow w pipelineId ''tests'') (\<lambda>testsWorkflow st5.
         fetch_jobs w prw testsWorkflow
           (not_awaited (throwIfPendingOrUnsuccessfulWorkflow testsWorkflow) st5))
         (not_awaited (throwIfPendingOrUnsuccessfulWorkflow prw) s)))"
      by (rule adds_await[where h = h]) (simp_all add: adds_issue workflow_options_def k3 that)
  qed
  have k1: "adds_requests_with h s
      (snd (await (getSpecificWorkflow w pipelineId ''package_and_publish_release_dryrun'')
       (\<lambda>packageAndReleaseWorkflow st3.
     await (getSpecificWorkflow w pipelineId ''tests'') (\<lambda>testsWorkflow st5.
       fetch_jobs w packageAndReleaseWorkflow testsWorkflow
         (not_awaited (throwIfPendingOrUnsuccessfulWorkflow testsWorkflow) st5))
       (not_awaited (throwIfPendingOrUnsuccessfulWorkflow packageAndReleaseWorkflow) st3)) s))"
    if "circleCIHeaders s = h" for pipelineId and s :: state
    by (rule adds_await[where h = h]) (simp_all add: adds_issue workflow_options_def k2 that)
  let ?st1 = "st\<lparr>console := console st @ [ConsoleInfo ''Getting CircleCI infoes'']\<rparr>"
  have s1: "circleCIHeaders ?st1 = h" using assms by simp
  have "adds_requests_with h ?st1 (snd (initialize w branchName st))"
    unfolding initialize_unfold
    by (rule adds_await[where h = h]) (simp_all add: adds_issue pipeline_options_def k1 s1)
  then show ?thesis by (simp add: adds_requests_with_def)
qed

lemma adds_findUrlForJob:
  assumes "circleCIHeaders st = h"
  shows "adds_requests_with h st (snd (findUrlForJob w jobName artifactPath st))"
proof (cases "jobs st")
  case None
  then show ?thesis using assms by (simp add: findUrlForJob_def adds_refl)
next
  case (Some js)
  show ?thesis
  proof (cases "find (\<lambda>j. job_name j = jobName) js")
    case None
    then show ?thesis using assms Some by (simp add: findUrlForJob_def adds_refl)
  next
    case found: (Some jb)
    have "adds_requests_with h st
       (snd (await (getJobsArtifacts w (job_number jb)) (\<lambda>artifacts st'.
                 (case find (\<lambda>artifact. indexOf (art_path artifact) artifactPath > - 1) artifacts of
                    None \<Rightarrow> (Inl (TypeError ''url''), st')
                  | Some found \<Rightarrow> (Inr (art_url found), st'))) st))"
      by (rule adds_await[where h = h])
         (simp_all add: adds_issue artifacts_options_def adds_refl assms split: option.splits)
    then show ?thesis using Some found by (simp add: findUrlForJob_def)
  qed
qed

lemma class_requests_have_no_headers:
  assumes "r \<in> set (requests (snd (initialize w branchName (constructor token st))))
         \<or> r \<in> set (requests (snd (findUrlForJob w jobName artifactPath
                  (snd (initialize w branchName (constructor token st))))))"
  shows "r \<in> set (requests st) \<or> opt_headers r = None"
proof -
  let ?st1 = "snd (initialize w branchName (constructor token st))"
  have h: "circleCIHeaders (constructor token st) = None"
      "requests (constructor token st) = requests st"
    by (simp_all add: constructor_def)
  have a1: "adds_requests_with None (constructor token st) ?st1"
    by (rule adds_initialize[OF h(1)])
  then have "circleCIHeaders ?st1 = None"
    by (simp add: adds_requests_with_def)
  then have "adds_requests_with None ?st1 (snd (findUrlForJob w jobName artifactPath ?st1))"
    by (rule adds_findUrlForJob)
  with a1 have a2: "adds_requests_with None (constructor token st)
      (snd (findUrlForJob w jobName artifactPath ?st1))"
    by (rule adds_trans)
  from a1 a2 assms show ?thesis
    unfolding adds_requests_with_def h(2) by auto
qed

lemma module_initialize_eq:
  "module_initialize w token baseTempPath branchName st =
     initialize w branchName
       (snd (exec w (''mkdir -p '' @ baseTempPath)
          (st\<lparr>circleCIHeaders := Some [(''Circle-Token'', token)],
              baseTemporaryPath := Some baseTempPath\<rparr>)))"
  by (cases st)
     (simp add: module_initialize_def initialize_def console_info_def exec_def Let_def
        case_prod_beta)

lemma module_requests_carry_token:
  assumes "r \<in> set (requests (snd (module_initialize w token baseTempPath branchName st)))"
  shows "r \<in> set (requests st) \<or> opt_headers r = Some [(''Circle-Token'', token)]"
proof -
  let ?st3 = "snd (exec w (''mkdir -p '' @ baseTempPath)
          (st\<lparr>circleCIHeaders := Some [(''Circle-Token'', token)],
              baseTemporaryPath := Some baseTempPath\<rparr>))"
  have h: "circleCIHeaders ?st3 = Some [(''Circle-Token'', token)]" "requests ?st3 = requests st"
    by (simp_all add: exec_def case_prod_beta)
  from adds_initialize[OF h(1), of w branchName] assms show ?thesis
    unfolding adds_requests_with_def h(2) module_initialize_eq by auto
qed

subsection \<open>The workflow statuses\<close>

lemma apart_fields:
  assumes "apart_from_unhandled st st'"
  shows "requests st' = requests st" "circleCIHeaders st' = circleCIHeaders st" "jobs st' = jobs st"
proof -
  from assms have e: "st'\<lparr>unhandled := unhandled st\<rparr> = st" by (simp add: apart_from_unhandled_def)
  show "requests st' = requests st" using arg_cong[OF e, of requests] by simp
  show "circleCIHeaders st' = circleCIHeaders st" using arg_cong[OF e, of circleCIHeaders] by simp
  show "jobs st' = jobs st" using arg_cong[OF e, of jobs] by simp
qed

lemma apart_refl: "apart_from_unhandled st st"
  by (simp add: apart_from_unhandled_def)

lemma apart_issue:
  "apart_from_unhandled st st' \<Longrightarrow> apart_from_unhandled (issue opts st) (issue opts st')"
  by (cases st; cases st') (simp add: apart_from_unhandled_def issue_def)

lemma apart_not_awaited:
  "apart_from_unhandled st st' \<Longrightarrow> apart_from_unhandled (not_awaited p st) (not_awaited q st')"
  by (cases st; cases st') (simp add: apart_from_unhandled_def not_awaited_def split: sum.splits)

lemma apart_jobs:
  "apart_from_unhandled st st' \<Longrightarrow> apart_from_unhandled (st\<lparr>jobs := j\<rparr>) (st'\<lparr>jobs := j\<rparr>)"
  by (cases st; cases st') (simp add: apart_from_unhandled_def)

lemma with_statuses_fields [simp]:
  "pipelines_api (with_statuses f w) = pipelines_api w"
  "jobs_api (with_statuses f w) = jobs_api w"
  "settle_order (with_statuses f w) = settle_order w"
  by (simp_all add: with_statuses_def)

lemma find_name_map_status:
  "find (\<lambda>workflow. wf_name workflow = n) (map (\<lambda>x. x\<lparr>wf_status := f x\<rparr>) xs)
     = map_option (\<lambda>x. x\<lparr>wf_status := f x\<rparr>) (find (\<lambda>workflow. wf_name workflow = n) xs)"
  by (induction xs) auto

lemma related_getLast:
  assumes "apart_from_unhandled st st'"
  shows "fst (getLastCircleCIPipelineID (with_statuses f w) b st') = fst (getLastCircleCIPipelineID w b st)"
    and "apart_from_unhandled (snd (getLastCircleCIPipelineID w b st))
           (snd (getLastCircleCIPipelineID (with_statuses f w) b st'))"
  using assms
  by (simp_all add: getLastCircleCIPipelineID_def Let_def apart_fields apart_issue)

lemma related_getSpecificWorkflow:
  assumes "apart_from_unhandled st st'"
  shows "fst (getSpecificWorkflow (with_statuses f w) p n st')
           = map_sum id (map_option (\<lambda>x. x\<lparr>wf_status := f x\<rparr>)) (fst (getSpecificWorkflow w p n st))"
    and "apart_from_unhandled (snd (getSpecificWorkflow w p n st))
           (snd (getSpecificWorkflow (with_statuses f w) p n st'))"
  using assms
  by (auto simp add: getSpecificWorkflow_def Let_def apart_fields apart_issue with_statuses_def
      find_name_map_status split: sum.splits)

lemma related_getCircleCIJobs:
  assumes "apart_from_unhandled st st'"
  shows "fst (getCircleCIJobs (with_statuses f w) i st') = fst (getCircleCIJobs w i st)"
    and "apart_from_unhandled (snd (getCircleCIJobs w i st)) (snd (getCircleCIJobs (with_statuses f w) i st'))"
  using assms
  by (simp_all add: getCircleCIJobs_def Let_def apart_fields apart_issue)

lemma related_fetch_jobs:
  assumes a: "apart_from_unhandled st st'"
  shows "fst (fetch_jobs (with_statuses f w) (map_option (\<lambda>x. x\<lparr>wf_status := f x\<rparr>) prw)
                (map_option (\<lambda>x. x\<lparr>wf_status := f x\<rparr>) tw) st')
           = fst (fetch_jobs w prw tw st)
       \<and> apart_from_unhandled (snd (fetch_jobs w prw tw st))
           (snd (fetch_jobs (with_statuses f w) (map_option (\<lambda>x. x\<lparr>wf_status := f x\<rparr>) prw)
                (map_option (\<lambda>x. x\<lparr>wf_status := f x\<rparr>) tw) st'))"
proof (cases prw)
  case None
  then show ?thesis using a by (simp add: fetch_jobs_def)
next
  case p: (Some p)
  note j1 = related_getCircleCIJobs[OF a, where f = f and w = w and i = "wf_id p"]
  show ?thesis
  proof (cases tw)
    case None
    then show ?thesis using p j1
      by (simp add: fetch_jobs_def case_prod_beta apart_not_awaited)
  next
    case (Some t)
    note j2 = related_getCircleCIJobs[OF j1(2), where f = f and w = w and i = "wf_id t"]
    show ?thesis using p Some j1 j2
      by (simp add: fetch_jobs_def case_prod_beta apart_jobs split: sum.splits)
  qed
qed

lemma await_related:
  assumes m: "fst (m' st') = map_sum id g (fst (m st))"
      "apart_from_unhandled (snd (m st)) (snd (m' st'))"
    and k: "\<And>x s s'. apart_from_unhandled s s' \<Longrightarrow>
        fst (k' (g x) s') = fst (k x s) \<and> apart_from_unhandled (snd (k x s)) (snd (k' (g x) s'))"
  shows "fst (await m' k' st') = (fst (await m k st) :: unit promise)
       \<and> apart_from_unhandled (snd (await m k st)) (snd (await m' k' st'))"
proof (cases "fst (m st)")
  case (Inl e)
  then have "fst (m' st') = Inl e" using m(1) by simp
  then show ?thesis using Inl m(2) by (simp add: await_Inl)
next
  case (Inr x)
  then have "fst (m' st') = Inr (g x)" using m(1) by simp
  then show ?thesis using Inr k[OF m(2), of x] by (simp add: await_Inr)
qed

lemma initialize_independent_of_status:
  "fst (initialize (with_statuses f w) branchName st) = fst (initialize w branchName st)
   \<and> jobs (snd (initialize (with_statuses f w) branchName st)) = jobs (snd (initialize w branchName st))
   \<and> requests (snd (initialize (with_statuses f w) branchName st))
       = requests (snd (initialize w branchName st))"
proof -
  let ?u = "\<lambda>x. x\<lparr>wf_status := f x\<rparr>"
  have k3: "fst (fetch_jobs (with_statuses f w) (map_option ?u prw) (map_option ?u tw)
                  (not_awaited (throwIfPendingOrUnsuccessfulWorkflow (map_option ?u tw)) s'))
            = fst (fetch_jobs w prw tw (not_awaited (throwIfPendingOrUnsuccessfulWorkflow tw) s))
       \<and> apart_from_unhandled
           (snd (fetch_jobs w prw tw (not_awaited (throwIfPendingOrUnsuccessfulWorkflow tw) s)))
           (snd (fetch_jobs (with_statuses f w) (map_option ?u prw) (map_option ?u tw)
                  (not_awaited (throwIfPendingOrUnsuccessfulWorkflow (map_option ?u tw)) s')))"
    if "apart_from_unhandled s s'" for prw tw s s'
    by (rule related_fetch_jobs) (rule apart_not_awaited[OF that])
  have k2: "fst (await (getSpecificWorkflow (with_statuses f w) p ''tests'') (\<lambda>testsWorkflow st5.
             fetch_jobs (with_statuses f w) (map_option ?u prw) testsWorkflow
               (not_awaited (throwIfPendingOrUnsuccessfulWorkflow testsWorkflow) st5))
             (not_awaited (throwIfPendingOrUnsuccessfulWorkflow (map_option ?u prw)) s'))
          = fst (await (getSpecificWorkflow w p ''tests'') (\<lambda>testsWorkflow st5.
             fetch_jobs w prw testsWorkflow
               (not_awaited (throwIfPendingOrUnsuccessfulWorkflow testsWorkflow) st5))
             (not_awaited (throwIfPendingOrUnsuccessfulWorkflow prw) s))
       \<and> apart_from_unhandled
          (snd (await (getSpecificWorkflow w p ''tests'') (\<lambda>testsWorkflow st5.
             fetch_jobs w prw testsWorkflow
               (not_awaited (throwIfPendingOrUnsuccessfulWorkflow testsWorkflow) st5))
             (not_awaited (throwIfPendingOrUnsuccessfulWorkflow prw) s)))
          (snd (await (getSpecificWorkflow (with_statuses f w) p ''tests'') (\<lambda>testsWorkflow st5.
             fetch_jobs (with_statuses f w) (map_option ?u prw) testsWorkflow
               (not_awaited (throwIfPendingOrUnsuccessfulWorkflow testsWorkflow) st5))
             (not_awaited (throwIfPendingOrUnsuccessfulWorkflow (map_option ?u prw)) s')))"
    if "apart_from_unhandled s s'" for p prw s s'
  proof (rule await_related[where g = "map_option ?u"])
    have n: "apart_from_unhandled (not_awaited (throwIfPendingOrUnsuccessfulWorkflow prw) s)
        (not_awaited (throwIfPendingOrUnsuccessfulWorkflow (map_option ?u prw)) s')"
      by (rule apart_not_awaited[OF that])
    show "fst (getSpecificWorkflow (with_statuses f w) p ''tests''
            (not_awaited (throwIfPendingOrUnsuccessfulWorkflow (map_option ?u prw)) s'))
        = map_sum id (map_option ?u) (fst (getSpecificWorkflow w p ''tests''
            (not_awaited (throwIfPendingOrUnsuccessfulWorkflow prw) s)))"
      by (rule related_getSpecificWorkflow(1)[OF n])
    show "apart_from_unhandled
        (snd (getSpecificWorkflow w p ''tests'' (not_awaited (throwIfPendingOrUnsuccessfulWorkflow prw) s)))
        (snd (getSpecificWorkflow (with_statuses f w) p ''tests''
            (not_awaited (throwIfPendingOrUnsuccessfulWorkflow (map_option ?u prw)) s')))"
      by (rule related_getSpecificWorkflow(2)[OF n])
  qed (rule k3)
  have k1: "fst (await (getSpecificWorkflow (with_statuses f w) p ''package_and_publish_release_dryrun'')
       (\<lambda>packageAndReleaseWorkflow st3.
     await (getSpecificWorkflow (with_statuses f w) p ''tests'') (\<lambda>testsWorkflow st5.
       fetch_jobs (with_statuses f w) packageAndReleaseWorkflow testsWorkflow
         (not_awaited (throwIfPendingOrUnsuccessfulWorkflow testsWorkflow) st5))
       (not_awaited (throwIfPendingOrUnsuccessfulWorkflow packageAndReleaseWorkflow) st3)) s')
     = fst (await (getSpecificWorkflow w p ''package_and_publish_release_dryrun'')
       (\<lambda>packageAndReleaseWorkflow st3.
     await (getSpecificWorkflow w p ''tests'') (\<lambda>testsWorkflow st5.
       fetch_jobs w packageAndReleaseWorkflow testsWorkflow
         (not_awaited (throwIfPendingOrUnsuccessfulWorkflow testsWorkflow) st5))
       (not_awaited (throwIfPendingOrUnsuccessfulWorkflow packageAndReleaseWorkflow) st3)) s)
     \<and> apart_from_unhandled
      (snd (await (getSpecificWorkflow w p ''package_and_publish_release_dryrun'')
       (\<lambda>packageAndReleaseWorkflow st3.
     await (getSpecificWorkflow w p ''tests'') (\<lambda>testsWorkflow st5.
       fetch_jobs w packageAndReleaseWorkflow testsWorkflow
         (not_awaited (throwIfPendingOrUnsuccessfulWorkflow testsWorkflow) st5))
       (not_awaited (throwIfPendingOrUnsuccessfulWorkflow packageAndReleaseWorkflow) st3)) s))
      (snd (await (getSpecificWorkflow (with_statuses f w) p ''package_and_publish_release_dryrun'')
       (\<lambda>packageAndReleaseWorkflow st3.
     await (getSpecificWorkflow (with_statuses f w) p ''tests'') (\<lambda>testsWorkflow st5.
       fetch_jobs (with_statuses f w) packageAndReleaseWorkflow testsWorkflow
         (not_awaited (throwIfPendingOrUnsuccessfulWorkflow testsWorkflow) st5))
       (not_awaited (throwIfPendingOrUnsuccessfulWorkflow packageAndReleaseWorkflow) st3)) s'))"
    if "apart_from_unhandled s s'" for p s s'
    by (rule await_related[where g = "map_option ?u"])
       (rule related_getSpecificWorkflow(1)[OF that], rule related_getSpecificWorkflow(2)[OF that],
        rule k2)
  let ?st1 = "st\<lparr>console := console st @ [ConsoleInfo ''Getting CircleCI infoes'']\<rparr>"
  have top: "fst (initialize (with_statuses f w) branchName st) = fst (initialize w branchName st)
     \<and> apart_from_unhandled (snd (initialize w branchName st))
          (snd (initialize (with_statuses f w) branchName st))"
    unfolding initialize_unfold
  proof (rule await_related[where g = "\<lambda>x. x"])
    show "fst (getLastCircleCIPipelineID (with_statuses f w) branchName ?st1)
        = map_sum id (\<lambda>x. x) (fst (getLastCircleCIPipelineID w branchName ?st1))"
      using related_getLast(1)[OF apart_refl, where f = f and w = w and b = branchName and st = ?st1]
      by (simp add: sum.map_id id_def[symmetric])
    show "apart_from_unhandled (snd (getLastCircleCIPipelineID w branchName ?st1))
        (snd (getLastCircleCIPipelineID (with_statuses f w) branchName ?st1))"
      by (rule related_getLast(2)[OF apart_refl])
  qed (rule k1)
  then show ?thesis
    using apart_fields[of "snd (initialize w branchName st)"
        "snd (initialize (with_statuses f w) branchName st)"]
    by simp
qed

subsection \<open>The job requests of \<^verbatim>\<open>initialize\<close>\<close>

lemma initialize_fulfilled_jobs:
  assumes success: "fst (initialize w branchName st) = Inr ()"
  shows "\<exists>(pl::pipeline) rw1 rw2 prw tw r1 r2.
      workflows_api w (length (requests st) + 1) (workflow_options (p_id pl) (circleCIHeaders st)) = Inr rw1
    \<and> prw \<in> set (resp_items rw1) \<and> wf_name prw = ''package_and_publish_release_dryrun''
    \<and> workflows_api w (length (requests st) + 2) (workflow_options (p_id pl) (circleCIHeaders st)) = Inr rw2
    \<and> tw \<in> set (resp_items rw2) \<and> wf_name tw = ''tests''
    \<and> jobs_api w (length (requests st) + 3) (job_options (wf_id prw) (circleCIHeaders st)) = Inr r1
    \<and> \<not> ToBoolean (resp_error r1)
    \<and> jobs_api w (length (requests st) + 4) (job_options (wf_id tw) (circleCIHeaders st)) = Inr r2
    \<and> \<not> ToBoolean (resp_error r2)
    \<and> jobs (snd (initialize w branchName st)) = Some (resp_items r1 @ resp_items r2)
    \<and> requests (snd (initialize w branchName st)) =
        requests st @ [pipeline_options branchName (circleCIHeaders st),
                       workflow_options (p_id pl) (circleCIHeaders st),
                       workflow_options (p_id pl) (circleCIHeaders st),
                       job_options (wf_id prw) (circleCIHeaders st),
                       job_options (wf_id tw) (circleCIHeaders st)]"
proof -
  let ?h = "circleCIHeaders st"
  let ?st1 = "st\<lparr>console := console st @ [ConsoleInfo ''Getting CircleCI infoes'']\<rparr>"
  let ?K1 = "\<lambda>pipeline.
     await (getSpecificWorkflow w (p_id pipeline) ''package_and_publish_release_dryrun'')
       (\<lambda>packageAndReleaseWorkflow st3.
     await (getSpecificWorkflow w (p_id pipeline) ''tests'') (\<lambda>testsWorkflow st5.
       fetch_jobs w packageAndReleaseWorkflow testsWorkflow
         (not_awaited (throwIfPendingOrUnsuccessfulWorkflow testsWorkflow) st5))
       (not_awaited (throwIfPendingOrUnsuccessfulWorkflow packageAndReleaseWorkflow) st3))"
  have i0: "initialize w branchName st = await (getLastCircleCIPipelineID w branchName) ?K1 ?st1"
    by (rule initialize_unfold)
  from success obtain pl where pl: "fst (getLastCircleCIPipelineID w branchName ?st1) = Inr pl"
    unfolding i0 by (blast dest: await_fulfilledD)
  let ?st2 = "issue (pipeline_options branchName ?h) ?st1"
  let ?m2 = "getSpecificWorkflow w (p_id pl) ''package_and_publish_release_dryrun''"
  let ?K2 = "\<lambda>packageAndReleaseWorkflow st3.
     await (getSpecificWorkflow w (p_id pl) ''tests'') (\<lambda>testsWorkflow st5.
       fetch_jobs w packageAndReleaseWorkflow testsWorkflow
         (not_awaited (throwIfPendingOrUnsuccessfulWorkflow testsWorkflow) st5))
       (not_awaited (throwIfPendingOrUnsuccessfulWorkflow packageAndReleaseWorkflow) st3)"
  have i1: "initialize w branchName st = await ?m2 ?K2 ?st2"
    unfolding i0 using await_Inr[of "getLastCircleCIPipelineID w branchName" ?st1 pl ?K1, OF pl] by simp
  from success obtain po where po: "fst (?m2 ?st2) = Inr po"
    unfolding i1 by (blast dest: await_fulfilledD)
  let ?st3 = "issue (workflow_options (p_id pl) ?h) ?st2"
  let ?st4 = "not_awaited (throwIfPendingOrUnsuccessfulWorkflow po) ?st3"
  let ?m3 = "getSpecificWorkflow w (p_id pl) ''tests''"
  let ?K3 = "\<lambda>testsWorkflow st5.
       fetch_jobs w po testsWorkflow
         (not_awaited (throwIfPendingOrUnsuccessfulWorkflow testsWorkflow) st5)"
  have i2: "initialize w branchName st = await ?m3 ?K3 ?st4"
    unfolding i1 using await_Inr[of ?m2 ?st2 po ?K2, OF po] by simp
  from success obtain to where to: "fst (?m3 ?st4) = Inr to"
    unfolding i2 by (blast dest: await_fulfilledD)
  let ?st5 = "issue (workflow_options (p_id pl) ?h) ?st4"
  let ?st6 = "not_awaited (throwIfPendingOrUnsuccessfulWorkflow to) ?st5"
  have i3: "initialize w branchName st = fetch_jobs w po to ?st6"
    unfolding i2 using await_Inr[of ?m3 ?st4 to ?K3, OF to] by simp
  have req6: "requests ?st6 = requests st @ [pipeline_options branchName ?h,
      workflow_options (p_id pl) ?h, workflow_options (p_id pl) ?h]"
    by simp
  have h6: "circleCIHeaders ?st6 = ?h" by simp
  from success have "fst (fetch_jobs w po to ?st6) = Inr ()" by (simp add: i3)
  from fetch_jobs_success[OF this] obtain prw tw r1 r2 where
      f: "po = Some prw" "to = Some tw"
      "jobs_api w (length (requests ?st6)) (job_options (wf_id prw) (circleCIHeaders ?st6)) = Inr r1"
      "\<not> ToBoolean (resp_error r1)"
      "jobs_api w (length (requests ?st6) + 1) (job_options (wf_id tw) (circleCIHeaders ?st6)) = Inr r2"
      "\<not> ToBoolean (resp_error r2)"
      "jobs (snd (fetch_jobs w po to ?st6)) = Some (resp_items r1 @ resp_items r2)"
      "requests (snd (fetch_jobs w po to ?st6)) =
          requests ?st6 @ [job_options (wf_id prw) (circleCIHeaders ?st6),
                           job_options (wf_id tw) (circleCIHeaders ?st6)]"
    by blast
  from po f(1) obtain rw1 where rw1:
      "workflows_api w (length (requests ?st2)) (workflow_options (p_id pl) (circleCIHeaders ?st2)) = Inr rw1"
      "find (\<lambda>workflow. wf_name workflow = ''package_and_publish_release_dryrun'') (resp_items rw1) = Some prw"
    by (auto simp only: getSpecificWorkflow_fulfilled)
  from to f(2) obtain rw2 where rw2:
      "workflows_api w (length (requests ?st4)) (workflow_options (p_id pl) (circleCIHeaders ?st4)) = Inr rw2"
      "find (\<lambda>workflow. wf_name workflow = ''tests'') (resp_items rw2) = Some tw"
    by (auto simp only: getSpecificWorkflow_fulfilled)
  have m1: "prw \<in> set (resp_items rw1) \<and> wf_name prw = ''package_and_publish_release_dryrun''"
    using rw1(2) by (auto simp: find_Some_iff)
  have m2: "tw \<in> set (resp_items rw2) \<and> wf_name tw = ''tests''"
    using rw2(2) by (auto simp: find_Some_iff)
  have a1: "workflows_api w (length (requests st) + 1) (workflow_options (p_id pl) ?h) = Inr rw1"
    using rw1(1) by simp
  have a2: "workflows_api w (length (requests st) + 2) (workflow_options (p_id pl) ?h) = Inr rw2"
    using rw2(1) by simp
  have a3: "jobs_api w (length (requests st) + 3) (job_options (wf_id prw) ?h) = Inr r1"
    using f(3) by (simp add: eval_nat_numeral)
  have a4: "jobs_api w (length (requests st) + 4) (job_options (wf_id tw) ?h) = Inr r2"
    using f(5) by (simp add: eval_nat_numeral)
  have a5: "jobs (snd (initialize w branchName st)) = Some (resp_items r1 @ resp_items r2)"
    using f(7) by (simp add: i3)
  have a6: "requests (snd (initialize w branchName st)) =
        requests st @ [pipeline_options branchName ?h, workflow_options (p_id pl) ?h,
                       workflow_options (p_id pl) ?h, job_options (wf_id prw) ?h,
                       job_options (wf_id tw) ?h]"
    using f(8) by (simp add: i3)
  have "workflows_api w (length (requests st) + 1) (workflow_options (p_id pl) ?h) = Inr rw1
    \<and> prw \<in> set (resp_items rw1) \<and> wf_name prw = ''package_and_publish_release_dryrun''
    \<and> workflows_api w (length (requests st) + 2) (workflow_options (p_id pl) ?h) = Inr rw2
    \<and> tw \<in> set (resp_items rw2) \<and> wf_name tw = ''tests''
    \<and> jobs_api w (length (requests st) + 3) (job_options (wf_id prw) ?h) = Inr r1
    \<and> \<not> ToBoolean (resp_error r1)
    \<and> jobs_api w (length (requests st) + 4) (job_options (wf_id tw) ?h) = Inr r2
    \<and> \<not> ToBoolean (resp_error r2)
    \<and> jobs (snd (initialize w branchName st)) = Some (resp_items r1 @ resp_items r2)
    \<and> requests (snd (initialize w branchName st)) =
        requests st @ [pipeline_options branchName ?h, workflow_options (p_id pl) ?h,
                       workflow_options (p_id pl) ?h, job_options (wf_id prw) ?h,
                       job_options (wf_id tw) ?h]"
    using a1 a2 a3 a4 a5 a6 m1 m2 f(4) f(6) by simp
  then show ?thesis by (intro exI) assumption
qed

lemma getCircleCIJobs_promise_cong:
  "length (requests s) = length (requests s') \<Longrightarrow> circleCIHeaders s = circleCIHeaders s' \<Longrightarrow>
   fst (getCircleCIJobs w workflowId s) = fst (getCircleCIJobs w workflowId s')"
  by (simp add: getCircleCIJobs_def Let_def)

lemma fetch_jobs_both:
  "fetch_jobs w (Some prw) (Some tw) st =
     (case Promise_all (settle_order w)
             [fst (getCircleCIJobs w (wf_id prw) st),
              fst (getCircleCIJobs w (wf_id tw) (issue (job_options (wf_id prw) (circleCIHeaders st)) st))] of
        Inl e \<Rightarrow>
          (Inl e, issue (job_options (wf_id tw) (circleCIHeaders st))
                    (issue (job_options (wf_id prw) (circleCIHeaders st)) st))
      | Inr jobsResults \<Rightarrow>
          (Inr (), (issue (job_options (wf_id tw) (circleCIHeaders st))
                     (issue (job_options (wf_id prw) (circleCIHeaders st)) st))
                   \<lparr>jobs := Some (concat jobsResults)\<rparr>))"
  by (simp add: fetch_jobs_def case_prod_beta split: sum.splits)

lemma not_in_image: "x \<notin> f ` set xs \<Longrightarrow> \<forall>b\<in>set xs. \<not> f b = x"
  by auto

lemma initialize_reaches_fetch_jobs:
  assumes pipe: "pipelines_api w (length (requests st))
                   (pipeline_options branchName (circleCIHeaders st)) = Inr rp"
      "\<not> ToBoolean (resp_error rp)" "resp_items rp = p # ps"
    and wf1: "workflows_api w (length (requests st) + 1)
                (workflow_options (p_id p) (circleCIHeaders st)) = Inr rw1" "\<not> ToBoolean (resp_error rw1)"
    and wf2: "workflows_api w (length (requests st) + 2)
                (workflow_options (p_id p) (circleCIHeaders st)) = Inr rw2" "\<not> ToBoolean (resp_error rw2)"
  shows "\<exists>st6. initialize w branchName st =
           fetch_jobs w
             (find (\<lambda>workflow. wf_name workflow = ''package_and_publish_release_dryrun'') (resp_items rw1))
             (find (\<lambda>workflow. wf_name workflow = ''tests'') (resp_items rw2)) st6
         \<and> requests st6 = requests st @ [pipeline_options branchName (circleCIHeaders st),
              workflow_options (p_id p) (circleCIHeaders st),
              workflow_options (p_id p) (circleCIHeaders st)]
         \<and> circleCIHeaders st6 = circleCIHeaders st \<and> jobs st6 = jobs st"
proof -
  let ?h = "circleCIHeaders st"
  let ?st1 = "st\<lparr>console := console st @ [ConsoleInfo ''Getting CircleCI infoes'']\<rparr>"
  let ?pl = "\<lparr>p_id = p_id p, p_number = p_number p\<rparr>"
  let ?K1 = "\<lambda>pipeline.
     await (getSpecificWorkflow w (p_id pipeline) ''package_and_publish_release_dryrun'')
       (\<lambda>packageAndReleaseWorkflow st3.
     await (getSpecificWorkflow w (p_id pipeline) ''tests'') (\<lambda>testsWorkflow st5.
       fetch_jobs w packageAndReleaseWorkflow testsWorkflow
         (not_awaited (throwIfPendingOrUnsuccessfulWorkflow testsWorkflow) st5))
       (not_awaited (throwIfPendingOrUnsuccessfulWorkflow packageAndReleaseWorkflow) st3))"
  have get: "fst (getLastCircleCIPipelineID w branchName ?st1) = Inr ?pl"
    using pipe by (simp add: getLastCircleCIPipelineID_fulfilled)
  let ?st2 = "issue (pipeline_options branchName ?h) ?st1"
  let ?m2 = "getSpecificWorkflow w (p_id p) ''package_and_publish_release_dryrun''"
  let ?K2 = "\<lambda>packageAndReleaseWorkflow st3.
     await (getSpecificWorkflow w (p_id p) ''tests'') (\<lambda>testsWorkflow st5.
       fetch_jobs w packageAndReleaseWorkflow testsWorkflow
         (not_awaited (throwIfPendingOrUnsuccessfulWorkflow testsWorkflow) st5))
       (not_awaited (throwIfPendingOrUnsuccessfulWorkflow packageAndReleaseWorkflow) st3)"
  have i1: "initialize w branchName st = await ?m2 ?K2 ?st2"
    using await_Inr[of "getLastCircleCIPipelineID w branchName" ?st1 ?pl ?K1, OF get]
    by (simp add: initialize_unfold)
  let ?po = "find (\<lambda>workflow. wf_name workflow = ''package_and_publish_release_dryrun'') (resp_items rw1)"
  have po: "fst (?m2 ?st2) = Inr ?po"
    using wf1 by (simp add: getSpecificWorkflow_fulfilled)
  let ?st3 = "issue (workflow_options (p_id p) ?h) ?st2"
  let ?st4 = "not_awaited (throwIfPendingOrUnsuccessfulWorkflow ?po) ?st3"
  let ?m3 = "getSpecificWorkflow w (p_id p) ''tests''"
  let ?K3 = "\<lambda>testsWorkflow st5.
       fetch_jobs w ?po testsWorkflow
         (not_awaited (throwIfPendingOrUnsuccessfulWorkflow testsWorkflow) st5)"
  have i2: "initialize w branchName st = await ?m3 ?K3 ?st4"
    unfolding i1 using await_Inr[of ?m2 ?st2 ?po ?K2, OF po] by simp
  let ?to = "find (\<lambda>workflow. wf_name workflow = ''tests'') (resp_items rw2)"
  have "length (requests ?st4) = length (requests st) + 2" by simp
  then have to: "fst (?m3 ?st4) = Inr ?to"
    using wf2 by (simp add: getSpecificWorkflow_fulfilled)
  let ?st5 = "issue (workflow_options (p_id p) ?h) ?st4"
  let ?st6 = "not_awaited (throwIfPendingOrUnsuccessfulWorkflow ?to) ?st5"
  have i3: "initialize w branchName st = fetch_jobs w ?po ?to ?st6"
    unfolding i2 using await_Inr[of ?m3 ?st4 ?to ?K3, OF to] by simp
  have "requests ?st6 = requests st @ [pipeline_options branchName ?h,
      workflow_options (p_id p) ?h, workflow_options (p_id p) ?h]
    \<and> circleCIHeaders ?st6 = ?h \<and> jobs ?st6 = jobs st"
    by simp
  with i3 show ?thesis by blast
qed

lemma initialize_issues_both_job_requests:
  assumes pipe: "pipelines_api w (length (requests st))
                   (pipeline_options branchName (circleCIHeaders st)) = Inr rp"
      "\<not> ToBoolean (resp_error rp)" "resp_items rp = p # ps"
    and wf1: "workflows_api w (length (requests st) + 1)
                (workflow_options (p_id p) (circleCIHeaders st)) = Inr rw1" "\<not> ToBoolean (resp_error rw1)"
    and found1: "resp_items rw1 = pre1 @ prw # post1"
      "wf_name prw = ''package_and_publish_release_dryrun''"
      "''package_and_publish_release_dryrun'' \<notin> wf_name ` set pre1"
    and wf2: "workflows_api w (length (requests st) + 2)
                (workflow_options (p_id p) (circleCIHeaders st)) = Inr rw2" "\<not> ToBoolean (resp_error rw2)"
    and found2: "resp_items rw2 = pre2 @ tw # post2"
      "wf_name tw = ''tests''" "''tests'' \<notin> wf_name ` set pre2"
  shows "requests (snd (initialize w branchName st)) =
           requests st @ [pipeline_options branchName (circleCIHeaders st),
                          workflow_options (p_id p) (circleCIHeaders st),
                          workflow_options (p_id p) (circleCIHeaders st),
                          job_options (wf_id prw) (circleCIHeaders st),
                          job_options (wf_id tw) (circleCIHeaders st)]
       \<and> fst (initialize w branchName st) =
           (case Promise_all (settle_order w)
              [fst (getCircleCIJobs w (wf_id prw)
                 (st\<lparr>requests := requests st @ [pipeline_options branchName (circleCIHeaders st),
                          workflow_options (p_id p) (circleCIHeaders st),
                          workflow_options (p_id p) (circleCIHeaders st)]\<rparr>)),
               fst (getCircleCIJobs w (wf_id tw)
                 (st\<lparr>requests := requests st @ [pipeline_options branchName (circleCIHeaders st),
                          workflow_options (p_id p) (circleCIHeaders st),
                          workflow_options (p_id p) (circleCIHeaders st),
                          job_options (wf_id prw) (circleCIHeaders st)]\<rparr>))] of
              Inl e \<Rightarrow> Inl e
            | Inr jobsResults \<Rightarrow> Inr ())
       \<and> jobs (snd (initialize w branchName st)) =
           (case Promise_all (settle_order w)
              [fst (getCircleCIJobs w (wf_id prw)
                 (st\<lparr>requests := requests st @ [pipeline_options branchName (circleCIHeaders st),
                          workflow_options (p_id p) (circleCIHeaders st),
                          workflow_options (p_id p) (circleCIHeaders st)]\<rparr>)),
               fst (getCircleCIJobs w (wf_id tw)
                 (st\<lparr>requests := requests st @ [pipeline_options branchName (circleCIHeaders st),
                          workflow_options (p_id p) (circleCIHeaders st),
                          workflow_options (p_id p) (circleCIHeaders st),
                          job_options (wf_id prw) (circleCIHeaders st)]\<rparr>))] of
              Inl e \<Rightarrow> jobs st
            | Inr jobsResults \<Rightarrow> Some (concat jobsResults))"
proof -
  let ?h = "circleCIHeaders st"
  have f1: "find (\<lambda>workflow. wf_name workflow = ''package_and_publish_release_dryrun'') (resp_items rw1)
      = Some prw"
  proof (rule find_first_match[of _ pre1 prw post1])
    show "\<forall>b\<in>set pre1. \<not> wf_name b = ''package_and_publish_release_dryrun''"
      by (rule not_in_image[OF found1(3)])
  qed (simp_all add: found1)
  have f2: "find (\<lambda>workflow. wf_name workflow = ''tests'') (resp_items rw2) = Some tw"
  proof (rule find_first_match[of _ pre2 tw post2])
    show "\<forall>b\<in>set pre2. \<not> wf_name b = ''tests''"
      by (rule not_in_image[OF found2(3)])
  qed (simp_all add: found2)
  from initialize_reaches_fetch_jobs[OF pipe wf1 wf2] obtain st6 where
      run: "initialize w branchName st = fetch_jobs w (Some prw) (Some tw) st6"
    and r6: "requests st6 = requests st @ [pipeline_options branchName ?h,
              workflow_options (p_id p) ?h, workflow_options (p_id p) ?h]"
    and h6: "circleCIHeaders st6 = ?h" and j6: "jobs st6 = jobs st"
    unfolding f1 f2 by (elim exE conjE) (erule that; assumption)
  let ?s3 = "st\<lparr>requests := requests st @ [pipeline_options branchName ?h,
              workflow_options (p_id p) ?h, workflow_options (p_id p) ?h]\<rparr>"
  let ?s4 = "st\<lparr>requests := requests st @ [pipeline_options branchName ?h,
              workflow_options (p_id p) ?h, workflow_options (p_id p) ?h,
              job_options (wf_id prw) ?h]\<rparr>"
  have p1: "fst (getCircleCIJobs w (wf_id prw) st6) = fst (getCircleCIJobs w (wf_id prw) ?s3)"
    by (rule getCircleCIJobs_promise_cong) (simp_all add: r6 h6)
  have p2: "fst (getCircleCIJobs w (wf_id tw) (issue (job_options (wf_id prw) (circleCIHeaders st6)) st6))
      = fst (getCircleCIJobs w (wf_id tw) ?s4)"
    by (rule getCircleCIJobs_promise_cong) (simp_all add: r6 h6)
  show ?thesis
    unfolding run fetch_jobs_both p1 p2
    by (simp add: r6 h6 j6 split: sum.splits)
qed

subsection \<open>Shell commands\<close>








section \<open>The claims\<close>

text \<open>
  C1. The claim: a workflow status other than \<^verbatim>\<open>"success"\<close> makes \<^verbatim>\<open>initialize\<close> fail with the
  error that names the workflow and its status, and \<^verbatim>\<open>initialize\<close> gets past the check only
  when both statuses are \<^verbatim>\<open>"success"\<close>.
  What the source does, evaluated on a service whose release workflow is \<^verbatim>\<open>"running"\<close>:
  \<^verbatim>\<open>initialize\<close> is fulfilled and \<^verbatim>\<open>this.jobs\<close> is populated. The error with the name and the
  status is built, but it only rejects the promise of the \<^verbatim>\<open>async\<close> method
  \<^verbatim>\<open>#throwIfPendingOrUnsuccessfulWorkflow\<close>, which \<^verbatim>\<open>initialize\<close> calls without \<^verbatim>\<open>await\<close>: it
  ends as an unhandled rejection.
\<close>

theorem initialize_proceeds_despite_unsuccessful_workflow:
  "fst (initialize (status_world ''running'' ''success'') ''main'' (constructor ''token'' empty_state))
     = Inr ()
   \<and> jobs (snd (initialize (status_world ''running'' ''success'') ''main''
                 (constructor ''token'' empty_state)))
     = Some [\<lparr>job_name = ''build_hermes_macos-Debug'', job_number = 7\<rparr>,
             \<lparr>job_name = ''test_android'', job_number = 19\<rparr>]
   \<and> unhandled (snd (initialize (status_world ''running'' ''success'') ''main''
                 (constructor ''token'' empty_state)))
     = [Error (''The package_and_publish_release_dryrun workflow status is running. '' @
               ''Please, wait for it to be finished before start testing or fix it'')]"
  by code_simp

text \<open>
  The same for every pair of statuses on that service. Lemma
  \<open>initialize_independent_of_status\<close> above shows, for every service, that the statuses
  change neither the outcome of \<^verbatim>\<open>initialize\<close> nor the jobs nor the requests.
\<close>

lemma initialize_ignores_status:
  "fst (initialize (status_world status1 status2) branchName (constructor token empty_state)) = Inr ()"
  by (simp add: initialize_def console_info_def await_def call_without_await_def
      getLastCircleCIPipelineID_def getPackageAndReleaseWorkflow_def getTestsWorkflow_def
      getSpecificWorkflow_def fetch_jobs_def getCircleCIJobs_def Promise_all_fulfilled
      status_world_def example_world_def example_workflows_def Let_def job_options_def)

text \<open>
  C2. On an initialised resolver, for a job name in the aggregated jobs (the lookup takes
  the first job of that name) and the artifact list the service returns for that job:
  \<^verbatim>\<open>#findUrlForJob\<close> is fulfilled with the url of the first artifact, in list order, whose
  path contains the fragment as a substring; when no path contains it the call fails.
  The failure the spec names \<^verbatim>\<open>ArtifactNotFound\<close> is, in the source, the \<open>TypeError\<close> of
  reading \<^verbatim>\<open>.url\<close> of the \<^verbatim>\<open>undefined\<close> that \<^verbatim>\<open>find\<close> returned.
\<close>

theorem findUrlForJob_first_match:
  assumes js: "jobs st = Some (jpre @ jb # jpost)"
    and name: "job_name jb = jobName"
    and first: "jobName \<notin> job_name ` set jpre"
    and resp: "artifacts_api w (length (requests st)) (artifacts_options (job_number jb) (circleCIHeaders st)) = Inr r"
    and ok: "\<not> ToBoolean (resp_error r)"
  shows "(\<forall>apre a apost.
            resp_items r = apre @ a # apost \<and> sublist artifactPath (art_path a) \<and>
            (\<forall>b\<in>set apre. \<not> sublist artifactPath (art_path b))
            \<longrightarrow> fst (findUrlForJob w jobName artifactPath st) = Inr (art_url a))
       \<and> ((\<forall>a\<in>set (resp_items r). \<not> sublist artifactPath (art_path a))
            \<longrightarrow> fst (findUrlForJob w jobName artifactPath st) = Inl (TypeError ''url''))"
proof -
  have fj: "find (\<lambda>j. job_name j = jobName) (jpre @ jb # jpost) = Some jb"
  proof (rule find_first_match[of _ jpre jb jpost])
    show "\<forall>b\<in>set jpre. \<not> job_name b = jobName" using first by auto
  qed (simp_all add: name)
  have run: "findUrlForJob w jobName artifactPath st =
      (case find (\<lambda>artifact. indexOf (art_path artifact) artifactPath > - 1) (resp_items r) of
         None \<Rightarrow> (Inl (TypeError ''url''), issue (artifacts_options (job_number jb) (circleCIHeaders st)) st)
       | Some found \<Rightarrow> (Inr (art_url found), issue (artifacts_options (job_number jb) (circleCIHeaders st)) st))"
    using js fj resp ok
    by (simp add: findUrlForJob_def await_def getJobsArtifacts_def Let_def)
  show ?thesis
  proof (intro conjI allI impI)
    fix apre a apost
    assume h: "resp_items r = apre @ a # apost \<and> sublist artifactPath (art_path a) \<and>
            (\<forall>b\<in>set apre. \<not> sublist artifactPath (art_path b))"
    then have "find (\<lambda>artifact. indexOf (art_path artifact) artifactPath > - 1) (resp_items r) = Some a"
      by (intro find_first_match[of _ apre a apost]) (auto simp: indexOf_contains)
    then show "fst (findUrlForJob w jobName artifactPath st) = Inr (art_url a)"
      by (simp add: run)
  next
    assume "\<forall>a\<in>set (resp_items r). \<not> sublist artifactPath (art_path a)"
    then have "find (\<lambda>artifact. indexOf (art_path artifact) artifactPath > - 1) (resp_items r) = None"
      by (simp add: find_None_iff indexOf_contains)
    then show "fst (findUrlForJob w jobName artifactPath st) = Inl (TypeError ''url'')"
      by (simp add: run)
  qed
qed

theorem findUrlForJob_first_match_witness:
  "fst (findUrlForJob example_world ''test_android'' ''jsc/app-jsc-release.apk'' initialized_state)
     = Inr ''https://ci.test/3''
   \<and> fst (findUrlForJob example_world ''test_android'' ''maven-local.zip'' initialized_state)
     = Inl (TypeError ''url'')"
proof -
  let ?a1 = "\<lparr>art_path = ''apk/hermes/app-hermes-debug.apk'', art_url = ''https://ci.test/1''\<rparr>"
  let ?a2 = "\<lparr>art_path = ''apk/hermes/app-hermes-release.apk'', art_url = ''https://ci.test/2''\<rparr>"
  let ?a3 = "\<lparr>art_path = ''apk/jsc/app-jsc-release.apk'', art_url = ''https://ci.test/3''\<rparr>"
  let ?a4 = "\<lparr>art_path = ''old/apk/jsc/app-jsc-release.apk'', art_url = ''https://ci.test/4''\<rparr>"
  let ?r = "\<lparr>resp_error = JsUndefined, resp_items = [?a1, ?a2, ?a3, ?a4]\<rparr>"
  let ?j7 = "\<lparr>job_name = ''build_hermes_macos-Debug'', job_number = 7\<rparr>"
  let ?j19 = "\<lparr>job_name = ''test_android'', job_number = 19\<rparr>"
  have h1: "jobs initialized_state = Some ([?j7] @ ?j19 # [])"
    by (simp add: initialized_state_def empty_state_def)
  have h2: "job_name ?j19 = ''test_android''" by simp
  have h3: "''test_android'' \<notin> job_name ` set [?j7]" by simp
  have h4: "artifacts_api example_world (length (requests initialized_state))
      (artifacts_options (job_number ?j19) (circleCIHeaders initialized_state)) = Inr ?r"
    by (simp add: example_world_def)
  have h5: "\<not> ToBoolean (resp_error ?r)" by simp
  note inst = findUrlForJob_first_match[OF h1 h2 h3 h4 h5]
  have m1: "resp_items ?r = [?a1, ?a2] @ ?a3 # [?a4]" by simp
  have m2: "sublist ''jsc/app-jsc-release.apk'' (art_path ?a3)" by code_simp
  have m3: "\<forall>b\<in>set [?a1, ?a2]. \<not> sublist ''jsc/app-jsc-release.apk'' (art_path b)" by code_simp
  have n1: "\<forall>a\<in>set (resp_items ?r). \<not> sublist ''maven-local.zip'' (art_path a)" by code_simp
  from inst[of "''jsc/app-jsc-release.apk''"] m1 m2 m3
  have c1: "fst (findUrlForJob example_world ''test_android'' ''jsc/app-jsc-release.apk'' initialized_state)
     = Inr (art_url ?a3)" by blast
  from inst[of "''maven-local.zip''"] n1
  have c2: "fst (findUrlForJob example_world ''test_android'' ''maven-local.zip'' initialized_state)
     = Inl (TypeError ''url'')" by blast
  from c1 c2 show ?thesis by simp
qed

text \<open>
  C3. When the pipeline request is answered with at least one item, the pipeline selected
  is item 0: its \<^verbatim>\<open>id\<close> and \<^verbatim>\<open>number\<close> are returned, and the next request \<^verbatim>\<open>initialize\<close>
  issues is the workflow request for that \<^verbatim>\<open>id\<close>. When the answer has no item,
  \<^verbatim>\<open>initialize\<close> fails and issues no further request. The failure the spec names
  \<^verbatim>\<open>NotFound\<close> is, in the source, the \<open>TypeError\<close> of reading \<^verbatim>\<open>.id\<close> of \<^verbatim>\<open>items[0]\<close>, which is
  \<^verbatim>\<open>undefined\<close>.
\<close>

theorem initialize_selects_first_pipeline:
  assumes resp: "pipelines_api w (length (requests st))
                   (pipeline_options branchName (circleCIHeaders st)) = Inr r"
    and ok: "\<not> ToBoolean (resp_error r)"
  shows "(\<forall>p ps. resp_items r = p # ps \<longrightarrow>
            fst (getLastCircleCIPipelineID w branchName st) = Inr \<lparr>p_id = p_id p, p_number = p_number p\<rparr>
            \<and> prefix (requests st @ [pipeline_options branchName (circleCIHeaders st),
                                      workflow_options (p_id p) (circleCIHeaders st)])
                 (requests (snd (initialize w branchName st))))
       \<and> (resp_items r = [] \<longrightarrow>
            initialize w branchName st =
              (Inl (TypeError ''id''),
               issue (pipeline_options branchName (circleCIHeaders st))
                 (st\<lparr>console := console st @ [ConsoleInfo ''Getting CircleCI infoes'']\<rparr>)))"
proof (intro conjI allI impI)
  fix p ps assume items: "resp_items r = p # ps"
  let ?st1 = "st\<lparr>console := console st @ [ConsoleInfo ''Getting CircleCI infoes'']\<rparr>"
  let ?pl = "\<lparr>p_id = p_id p, p_number = p_number p\<rparr>"
  show "fst (getLastCircleCIPipelineID w branchName st) = Inr ?pl"
    using resp ok items by (simp add: getLastCircleCIPipelineID_fulfilled)
  have get: "fst (getLastCircleCIPipelineID w branchName ?st1) = Inr ?pl"
    using resp ok items by (simp add: getLastCircleCIPipelineID_fulfilled)
  let ?st2 = "issue (pipeline_options branchName (circleCIHeaders st)) ?st1"
  let ?m = "getSpecificWorkflow w (p_id p) ''package_and_publish_release_dryrun''"
  let ?k = "\<lambda>packageAndReleaseWorkflow st3.
     await (getSpecificWorkflow w (p_id p) ''tests'') (\<lambda>testsWorkflow st5.
       fetch_jobs w packageAndReleaseWorkflow testsWorkflow
         (not_awaited (throwIfPendingOrUnsuccessfulWorkflow testsWorkflow) st5))
       (not_awaited (throwIfPendingOrUnsuccessfulWorkflow packageAndReleaseWorkflow) st3)"
  let ?K1 = "\<lambda>pipeline.
     await (getSpecificWorkflow w (p_id pipeline) ''package_and_publish_release_dryrun'')
       (\<lambda>packageAndReleaseWorkflow st3.
     await (getSpecificWorkflow w (p_id pipeline) ''tests'') (\<lambda>testsWorkflow st5.
       fetch_jobs w packageAndReleaseWorkflow testsWorkflow
         (not_awaited (throwIfPendingOrUnsuccessfulWorkflow testsWorkflow) st5))
       (not_awaited (throwIfPendingOrUnsuccessfulWorkflow packageAndReleaseWorkflow) st3))"
  have run: "initialize w branchName st = await ?m ?k ?st2"
    using await_Inr[of "getLastCircleCIPipelineID w branchName" ?st1 ?pl ?K1, OF get]
    by (simp add: initialize_unfold)
  let ?st3 = "issue (workflow_options (p_id p) (circleCIHeaders st)) ?st2"
  have st3: "snd (?m ?st2) = ?st3" by simp
  have req3: "requests ?st3 = requests st @ [pipeline_options branchName (circleCIHeaders st),
                                      workflow_options (p_id p) (circleCIHeaders st)]"
    by simp
  show "prefix (requests st @ [pipeline_options branchName (circleCIHeaders st),
                                      workflow_options (p_id p) (circleCIHeaders st)])
                 (requests (snd (initialize w branchName st)))"
  proof (cases "fst (?m ?st2)")
    case (Inl e)
    have "initialize w branchName st = (Inl e, ?st3)"
      unfolding run using await_Inl[of ?m ?st2 e ?k, OF Inl] by simp
    then show ?thesis by (simp add: req3)
  next
    case (Inr x)
    have "initialize w branchName st = ?k x ?st3"
      unfolding run using await_Inr[of ?m ?st2 x ?k, OF Inr] by simp
    then show ?thesis
      using after_workflow_requests[of ?st3 w "p_id p" x "throwIfPendingOrUnsuccessfulWorkflow x"]
      by (simp only: req3)
  qed
next
  assume items: "resp_items r = []"
  let ?st1 = "st\<lparr>console := console st @ [ConsoleInfo ''Getting CircleCI infoes'']\<rparr>"
  have "getLastCircleCIPipelineID w branchName ?st1 =
      (Inl (TypeError ''id''), issue (pipeline_options branchName (circleCIHeaders st)) ?st1)"
    using resp ok items by (simp add: getLastCircleCIPipelineID_def Let_def)
  then show "initialize w branchName st =
      (Inl (TypeError ''id''), issue (pipeline_options branchName (circleCIHeaders st)) ?st1)"
    by (simp add: initialize_unfold await_def)
qed

theorem initialize_selects_first_pipeline_witness:
  "fst (getLastCircleCIPipelineID example_world ''main'' empty_state)
     = Inr \<lparr>p_id = ''p1'', p_number = 42\<rparr>
   \<and> prefix [pipeline_options ''main'' None, workflow_options ''p1'' None]
        (requests (snd (initialize example_world ''main'' empty_state)))
   \<and> fst (initialize no_pipeline_world ''main'' empty_state) = Inl (TypeError ''id'')
   \<and> requests (snd (initialize no_pipeline_world ''main'' empty_state))
     = [pipeline_options ''main'' None]"
proof -
  let ?pa = "\<lparr>p_id = ''p1'', p_number = 42\<rparr>"
  let ?pb = "\<lparr>p_id = ''p0'', p_number = 41\<rparr>"
  let ?r = "\<lparr>resp_error = JsUndefined, resp_items = [?pa, ?pb]\<rparr>"
  let ?e = "\<lparr>resp_error = JsUndefined, resp_items = []\<rparr> :: pipeline response"
  have h1: "pipelines_api example_world (length (requests empty_state))
      (pipeline_options ''main'' (circleCIHeaders empty_state)) = Inr ?r"
    by (simp add: example_world_def)
  have h2: "\<not> ToBoolean (resp_error ?r)" by simp
  have k1: "pipelines_api no_pipeline_world (length (requests empty_state))
      (pipeline_options ''main'' (circleCIHeaders empty_state)) = Inr ?e"
    by (simp add: no_pipeline_world_def)
  have k2: "\<not> ToBoolean (resp_error ?e)" by simp
  have hs: "circleCIHeaders empty_state = None" "requests empty_state = []"
    by (simp_all add: empty_state_def)
  from initialize_selects_first_pipeline[OF h1 h2]
  have a: "fst (getLastCircleCIPipelineID example_world ''main'' empty_state) = Inr ?pa
     \<and> prefix [pipeline_options ''main'' None, workflow_options ''p1'' None]
        (requests (snd (initialize example_world ''main'' empty_state)))"
    by (simp add: hs)
  from initialize_selects_first_pipeline[OF k1 k2]
  have b: "fst (initialize no_pipeline_world ''main'' empty_state) = Inl (TypeError ''id'')
     \<and> requests (snd (initialize no_pipeline_world ''main'' empty_state))
       = [pipeline_options ''main'' None]"
    by (simp add: hs)
  from a b show ?thesis by simp
qed

text \<open>
  C4. When \<^verbatim>\<open>initialize\<close> is fulfilled, \<^verbatim>\<open>this.jobs\<close> is the job list answered for the workflow
  named \<^verbatim>\<open>package_and_publish_release_dryrun\<close> followed by the job list answered for the
  workflow named \<^verbatim>\<open>tests\<close>, and the two job requests are the fourth and fifth request of
  the call. And whenever the pipeline and both workflows have been found, whatever the
  answers to the job requests are: both job requests are issued (the second one also when
  the first is rejected or reports an error), the outcome of \<^verbatim>\<open>initialize\<close> is the outcome
  of \<^verbatim>\<open>Promise.all\<close> on the two promises (rejected with the error of the one that settles
  first when both fail), and \<^verbatim>\<open>this.jobs\<close> is assigned only when both are fulfilled.
\<close>

theorem initialize_aggregates_jobs:
  "(fst (initialize w branchName st) = Inr () \<longrightarrow>
     (\<exists>(pl::pipeline) rw1 rw2 prw tw r1 r2.
      workflows_api w (length (requests st) + 1) (workflow_options (p_id pl) (circleCIHeaders st)) = Inr rw1
    \<and> prw \<in> set (resp_items rw1) \<and> wf_name prw = ''package_and_publish_release_dryrun''
    \<and> workflows_api w (length (requests st) + 2) (workflow_options (p_id pl) (circleCIHeaders st)) = Inr rw2
    \<and> tw \<in> set (resp_items rw2) \<and> wf_name tw = ''tests''
    \<and> jobs_api w (length (requests st) + 3) (job_options (wf_id prw) (circleCIHeaders st)) = Inr r1
    \<and> \<not> ToBoolean (resp_error r1)
    \<and> jobs_api w (length (requests st) + 4) (job_options (wf_id tw) (circleCIHeaders st)) = Inr r2
    \<and> \<not> ToBoolean (resp_error r2)
    \<and> jobs (snd (initialize w branchName st)) = Some (resp_items r1 @ resp_items r2)
    \<and> requests (snd (initialize w branchName st)) =
        requests st @ [pipeline_options branchName (circleCIHeaders st),
                       workflow_options (p_id pl) (circleCIHeaders st),
                       workflow_options (p_id pl) (circleCIHeaders st),
                       job_options (wf_id prw) (circleCIHeaders st),
                       job_options (wf_id tw) (circleCIHeaders st)]))
   \<and> (pipelines_api w (length (requests st))
         (pipeline_options branchName (circleCIHeaders st)) = Inr rp
      \<and> \<not> ToBoolean (resp_error rp) \<and> resp_items rp = p # ps
      \<and> workflows_api w (length (requests st) + 1)
            (workflow_options (p_id p) (circleCIHeaders st)) = Inr ra
      \<and> \<not> ToBoolean (resp_error ra)
      \<and> resp_items ra = rel_pre @ rel # rel_post
      \<and> wf_name rel = ''package_and_publish_release_dryrun''
      \<and> ''package_and_publish_release_dryrun'' \<notin> wf_name ` set rel_pre
      \<and> workflows_api w (length (requests st) + 2)
            (workflow_options (p_id p) (circleCIHeaders st)) = Inr rb
      \<and> \<not> ToBoolean (resp_error rb)
      \<and> resp_items rb = tst_pre @ tst # tst_post
      \<and> wf_name tst = ''tests'' \<and> ''tests'' \<notin> wf_name ` set tst_pre
      \<longrightarrow>
       requests (snd (initialize w branchName st)) =
           requests st @ [pipeline_options branchName (circleCIHeaders st),
                          workflow_options (p_id p) (circleCIHeaders st),
                          workflow_options (p_id p) (circleCIHeaders st),
                          job_options (wf_id rel) (circleCIHeaders st),
                          job_options (wf_id tst) (circleCIHeaders st)]
       \<and> fst (initialize w branchName st) =
           (case Promise_all (settle_order w)
              [fst (getCircleCIJobs w (wf_id rel)
                 (st\<lparr>requests := requests st @ [pipeline_options branchName (circleCIHeaders st),
                          workflow_options (p_id p) (circleCIHeaders st),
                          workflow_options (p_id p) (circleCIHeaders st)]\<rparr>)),
               fst (getCircleCIJobs w (wf_id tst)
                 (st\<lparr>requests := requests st @ [pipeline_options branchName (circleCIHeaders st),
                          workflow_options (p_id p) (circleCIHeaders st),
                          workflow_options (p_id p) (circleCIHeaders st),
                          job_options (wf_id rel) (circleCIHeaders st)]\<rparr>))] of
              Inl e \<Rightarrow> Inl e
            | Inr jobsResults \<Rightarrow> Inr ())
       \<and> jobs (snd (initialize w branchName st)) =
           (case Promise_all (settle_order w)
              [fst (getCircleCIJobs w (wf_id rel)
                 (st\<lparr>requests := requests st @ [pipeline_options branchName (circleCIHeaders st),
                          workflow_options (p_id p) (circleCIHeaders st),
                          workflow_options (p_id p) (circleCIHeaders st)]\<rparr>)),
               fst (getCircleCIJobs w (wf_id tst)
                 (st\<lparr>requests := requests st @ [pipeline_options branchName (circleCIHeaders st),
                          workflow_options (p_id p) (circleCIHeaders st),
                          workflow_options (p_id p) (circleCIHeaders st),
                          job_options (wf_id rel) (circleCIHeaders st)]\<rparr>))] of
              Inl e \<Rightarrow> jobs st
            | Inr jobsResults \<Rightarrow> Some (concat jobsResults)))"
proof (rule conjI; rule impI)
  assume "fst (initialize w branchName st) = Inr ()"
  then show "\<exists>(pl::pipeline) rw1 rw2 prw tw r1 r2.
      workflows_api w (length (requests st) + 1) (workflow_options (p_id pl) (circleCIHeaders st)) = Inr rw1
    \<and> prw \<in> set (resp_items rw1) \<and> wf_name prw = ''package_and_publish_release_dryrun''
    \<and> workflows_api w (length (requests st) + 2) (workflow_options (p_id pl) (circleCIHeaders st)) = Inr rw2
    \<and> tw \<in> set (resp_items rw2) \<and> wf_name tw = ''tests''
    \<and> jobs_api w (length (requests st) + 3) (job_options (wf_id prw) (circleCIHeaders st)) = Inr r1
    \<and> \<not> ToBoolean (resp_error r1)
    \<and> jobs_api w (length (requests st) + 4) (job_options (wf_id tw) (circleCIHeaders st)) = Inr r2
    \<and> \<not> ToBoolean (resp_error r2)
    \<and> jobs (snd (initialize w branchName st)) = Some (resp_items r1 @ resp_items r2)
    \<and> requests (snd (initialize w branchName st)) =
        requests st @ [pipeline_options branchName (circleCIHeaders st),
                       workflow_options (p_id pl) (circleCIHeaders st),
                       workflow_options (p_id pl) (circleCIHeaders st),
                       job_options (wf_id prw) (circleCIHeaders st),
                       job_options (wf_id tw) (circleCIHeaders st)]"
    by (rule initialize_fulfilled_jobs)
next
  assume h: "pipelines_api w (length (requests st))
         (pipeline_options branchName (circleCIHeaders st)) = Inr rp
      \<and> \<not> ToBoolean (resp_error rp) \<and> resp_items rp = p # ps
      \<and> workflows_api w (length (requests st) + 1)
            (workflow_options (p_id p) (circleCIHeaders st)) = Inr ra
      \<and> \<not> ToBoolean (resp_error ra)
      \<and> resp_items ra = rel_pre @ rel # rel_post
      \<and> wf_name rel = ''package_and_publish_release_dryrun''
      \<and> ''package_and_publish_release_dryrun'' \<notin> wf_name ` set rel_pre
      \<and> workflows_api w (length (requests st) + 2)
            (workflow_options (p_id p) (circleCIHeaders st)) = Inr rb
      \<and> \<not> ToBoolean (resp_error rb)
      \<and> resp_items rb = tst_pre @ tst # tst_post
      \<and> wf_name tst = ''tests'' \<and> ''tests'' \<notin> wf_name ` set tst_pre"
  show "requests (snd (initialize w branchName st)) =
           requests st @ [pipeline_options branchName (circleCIHeaders st),
                          workflow_options (p_id p) (circleCIHeaders st),
                          workflow_options (p_id p) (circleCIHeaders st),
                          job_options (wf_id rel) (circleCIHeaders st),
                          job_options (wf_id tst) (circleCIHeaders st)]
       \<and> fst (initialize w branchName st) =
           (case Promise_all (settle_order w)
              [fst (getCircleCIJobs w (wf_id rel)
                 (st\<lparr>requests := requests st @ [pipeline_options branchName (circleCIHeaders st),
                          workflow_options (p_id p) (circleCIHeaders st),
                          workflow_options (p_id p) (circleCIHeaders st)]\<rparr>)),
               fst (getCircleCIJobs w (wf_id tst)
                 (st\<lparr>requests := requests st @ [pipeline_options branchName (circleCIHeaders st),
                          workflow_options (p_id p) (circleCIHeaders st),
                          workflow_options (p_id p) (circleCIHeaders st),
                          job_options (wf_id rel) (circleCIHeaders st)]\<rparr>))] of
              Inl e \<Rightarrow> Inl e
            | Inr jobsResults \<Rightarrow> Inr ())
       \<and> jobs (snd (initialize w branchName st)) =
           (case Promise_all (settle_order w)
              [fst (getCircleCIJobs w (wf_id rel)
                 (st\<lparr>requests := requests st @ [pipeline_options branchName (circleCIHeaders st),
                          workflow_options (p_id p) (circleCIHeaders st),
                          workflow_options (p_id p) (circleCIHeaders st)]\<rparr>)),
               fst (getCircleCIJobs w (wf_id tst)
                 (st\<lparr>requests := requests st @ [pipeline_options branchName (circleCIHeaders st),
                          workflow_options (p_id p) (circleCIHeaders st),
                          workflow_options (p_id p) (circleCIHeaders st),
                          job_options (wf_id rel) (circleCIHeaders st)]\<rparr>))] of
              Inl e \<Rightarrow> jobs st
            | Inr jobsResults \<Rightarrow> Some (concat jobsResults))"
    by (rule initialize_issues_both_job_requests[of w st branchName rp p ps ra rel_pre rel rel_post
          rb tst_pre tst tst_post])
       (insert h, simp_all)
qed

theorem initialize_aggregates_jobs_witness:
  "fst (initialize example_world ''main'' (constructor ''token'' empty_state)) = Inr ()
   \<and> jobs (snd (initialize example_world ''main'' (constructor ''token'' empty_state)))
       = Some [\<lparr>job_name = ''build_hermes_macos-Debug'', job_number = 7\<rparr>,
               \<lparr>job_name = ''test_android'', job_number = 19\<rparr>]
   \<and> requests (snd (initialize jobs_failing_world ''main'' (constructor ''token'' empty_state)))
       = [pipeline_options ''main'' None, workflow_options ''p1'' None, workflow_options ''p1'' None,
          job_options ''w1'' None, job_options ''w2'' None]
   \<and> fst (initialize jobs_failing_world ''main'' (constructor ''token'' empty_state))
       = Inl (ReferenceError ''error'')
   \<and> jobs (snd (initialize jobs_failing_world ''main'' (constructor ''token'' empty_state))) = None"
proof -
  let ?st = "constructor ''token'' empty_state"
  let ?pa = "\<lparr>p_id = ''p1'', p_number = 42\<rparr>"
  let ?pb = "\<lparr>p_id = ''p0'', p_number = 41\<rparr>"
  let ?rp = "\<lparr>resp_error = JsUndefined, resp_items = [?pa, ?pb]\<rparr>"
  let ?wa = "\<lparr>wf_id = ''w1'', wf_name = ''package_and_publish_release_dryrun'',
              wf_status = ''success''\<rparr>"
  let ?wb = "\<lparr>wf_id = ''w2'', wf_name = ''tests'', wf_status = ''success''\<rparr>"
  let ?rw = "\<lparr>resp_error = JsUndefined, resp_items = [?wa, ?wb]\<rparr>"
  have hs: "circleCIHeaders ?st = None" "requests ?st = []" "jobs ?st = None"
    by (simp_all add: constructor_def empty_state_def)
  have h: "fst (initialize example_world ''main'' ?st) = Inr ()" by code_simp
  from initialize_aggregates_jobs[of example_world "''main''" ?st, THEN conjunct1, THEN mp, OF h]
  have "\<exists>j. jobs (snd (initialize example_world ''main'' ?st)) = Some j" by blast
  moreover have "jobs (snd (initialize example_world ''main'' ?st)) = None
      \<or> jobs (snd (initialize example_world ''main'' ?st))
       = Some [\<lparr>job_name = ''build_hermes_macos-Debug'', job_number = 7\<rparr>,
               \<lparr>job_name = ''test_android'', job_number = 19\<rparr>]"
    by code_simp
  ultimately have v: "jobs (snd (initialize example_world ''main'' ?st))
       = Some [\<lparr>job_name = ''build_hermes_macos-Debug'', job_number = 7\<rparr>,
               \<lparr>job_name = ''test_android'', job_number = 19\<rparr>]"
    by auto
  have g: "pipelines_api jobs_failing_world (length (requests ?st))
         (pipeline_options ''main'' (circleCIHeaders ?st)) = Inr ?rp
      \<and> \<not> ToBoolean (resp_error ?rp) \<and> resp_items ?rp = ?pa # [?pb]
      \<and> workflows_api jobs_failing_world (length (requests ?st) + 1)
            (workflow_options (p_id ?pa) (circleCIHeaders ?st)) = Inr ?rw
      \<and> \<not> ToBoolean (resp_error ?rw)
      \<and> resp_items ?rw = [] @ ?wa # [?wb]
      \<and> wf_name ?wa = ''package_and_publish_release_dryrun''
      \<and> ''package_and_publish_release_dryrun'' \<notin> wf_name ` set []
      \<and> workflows_api jobs_failing_world (length (requests ?st) + 2)
            (workflow_options (p_id ?pa) (circleCIHeaders ?st)) = Inr ?rw
      \<and> \<not> ToBoolean (resp_error ?rw)
      \<and> resp_items ?rw = [?wa] @ ?wb # []
      \<and> wf_name ?wb = ''tests'' \<and> ''tests'' \<notin> wf_name ` set [?wa]"
    by (simp add: jobs_failing_world_def example_world_def example_workflows_def)
  have pa: "Promise_all (settle_order jobs_failing_world)
      [fst (getCircleCIJobs jobs_failing_world ''w1''
         (?st\<lparr>requests := [pipeline_options ''main'' None, workflow_options ''p1'' None,
                        workflow_options ''p1'' None]\<rparr>)),
       fst (getCircleCIJobs jobs_failing_world ''w2''
         (?st\<lparr>requests := [pipeline_options ''main'' None, workflow_options ''p1'' None,
                        workflow_options ''p1'' None, job_options ''w1'' None]\<rparr>))]
     = Inl (ReferenceError ''error'')"
    by code_simp
  from initialize_aggregates_jobs[where w = jobs_failing_world and st = ?st
      and branchName = "''main''" and rp = ?rp and p = ?pa and ps = "[?pb]"
      and ra = ?rw and rel_pre = "[]" and rel = ?wa and rel_post = "[?wb]"
      and rb = ?rw and tst_pre = "[?wa]" and tst = ?wb and tst_post = "[]",
      THEN conjunct2, THEN mp, OF g]
  have f: "requests (snd (initialize jobs_failing_world ''main'' ?st))
       = [pipeline_options ''main'' None, workflow_options ''p1'' None, workflow_options ''p1'' None,
          job_options ''w1'' None, job_options ''w2'' None]
     \<and> fst (initialize jobs_failing_world ''main'' ?st) = Inl (ReferenceError ''error'')
     \<and> jobs (snd (initialize jobs_failing_world ''main'' ?st)) = None"
    by (simp add: hs pa)
  from h v f show ?thesis by simp
qed

text \<open>
  In the failing example both job requests fail and the second one settles first. Were
  the first to settle first, its error would be the outcome.
\<close>

lemma first_to_settle_decides:
  "fst (initialize (jobs_failing_world\<lparr>settle_order := [0, 1]\<rparr>) ''main''
         (constructor ''token'' empty_state)) = Inl (Error ''ECONNRESET'')"
  by code_simp

text \<open>
  C5. The claim: every request carries an authentication header built from the token.
  What the source does: the constructor stores the header object in the property
  \<^verbatim>\<open>circleCIToken\<close>, every request reads its headers from the property \<^verbatim>\<open>circleCIHeaders\<close>,
  which nothing assigns. Evaluated on the example service: the five requests of
  \<^verbatim>\<open>initialize\<close> and the artifact request of a lookup all have \<^verbatim>\<open>headers: undefined\<close>.
  Lemma \<open>class_requests_have_no_headers\<close> above shows the same for every service, token
  and branch; lemma \<open>module_requests_carry_token\<close> shows that the module-level variant
  of the same code does send the header.
\<close>

theorem requests_carry_no_auth_header:
  "circleCIToken (constructor ''token'' empty_state) = Some [(''Circle-Token'', ''token'')]
   \<and> map opt_headers
        (requests (snd (initialize example_world ''main'' (constructor ''token'' empty_state))))
     = [None, None, None, None, None]
   \<and> map opt_headers
        (requests (snd (findUrlForJob example_world ''test_android'' ''jsc/app-jsc-release.apk''
           (snd (initialize example_world ''main'' (constructor ''token'' empty_state))))))
     = [None, None, None, None, None, None]"
  by code_simp

text \<open>
  C6. When the pipeline and both workflow requests are answered without error and the
  first answer has no workflow named \<^verbatim>\<open>package_and_publish_release_dryrun\<close>, or the second
  has none named \<^verbatim>\<open>tests\<close>, \<^verbatim>\<open>initialize\<close> fails. The failure the spec names \<^verbatim>\<open>NotFound\<close>
  is, in the source, the \<open>TypeError\<close> of reading \<^verbatim>\<open>.id\<close> of the \<^verbatim>\<open>undefined\<close> workflow, raised
  when the job requests are built.
\<close>

theorem initialize_absent_workflow:
  assumes pipe: "pipelines_api w (length (requests st))
                   (pipeline_options branchName (circleCIHeaders st)) = Inr rp"
      "\<not> ToBoolean (resp_error rp)" "resp_items rp = p # ps"
    and wf1: "workflows_api w (length (requests st) + 1)
                (workflow_options (p_id p) (circleCIHeaders st)) = Inr rw1" "\<not> ToBoolean (resp_error rw1)"
    and wf2: "workflows_api w (length (requests st) + 2)
                (workflow_options (p_id p) (circleCIHeaders st)) = Inr rw2" "\<not> ToBoolean (resp_error rw2)"
    and absent: "''package_and_publish_release_dryrun'' \<notin> wf_name ` set (resp_items rw1)
                 \<or> ''tests'' \<notin> wf_name ` set (resp_items rw2)"
  shows "fst (initialize w branchName st) = Inl (TypeError ''id'')"
proof -
  let ?h = "circleCIHeaders st"
  let ?st1 = "st\<lparr>console := console st @ [ConsoleInfo ''Getting CircleCI infoes'']\<rparr>"
  let ?pl = "\<lparr>p_id = p_id p, p_number = p_number p\<rparr>"
  let ?K1 = "\<lambda>pipeline.
     await (getSpecificWorkflow w (p_id pipeline) ''package_and_publish_release_dryrun'')
       (\<lambda>packageAndReleaseWorkflow st3.
     await (getSpecificWorkflow w (p_id pipeline) ''tests'') (\<lambda>testsWorkflow st5.
       fetch_jobs w packageAndReleaseWorkflow testsWorkflow
         (not_awaited (throwIfPendingOrUnsuccessfulWorkflow testsWorkflow) st5))
       (not_awaited (throwIfPendingOrUnsuccessfulWorkflow packageAndReleaseWorkflow) st3))"
  have get: "fst (getLastCircleCIPipelineID w branchName ?st1) = Inr ?pl"
    using pipe by (simp add: getLastCircleCIPipelineID_fulfilled)
  let ?st2 = "issue (pipeline_options branchName ?h) ?st1"
  let ?m2 = "getSpecificWorkflow w (p_id p) ''package_and_publish_release_dryrun''"
  let ?K2 = "\<lambda>packageAndReleaseWorkflow st3.
     await (getSpecificWorkflow w (p_id p) ''tests'') (\<lambda>testsWorkflow st5.
       fetch_jobs w packageAndReleaseWorkflow testsWorkflow
         (not_awaited (throwIfPendingOrUnsuccessfulWorkflow testsWorkflow) st5))
       (not_awaited (throwIfPendingOrUnsuccessfulWorkflow packageAndReleaseWorkflow) st3)"
  have i1: "initialize w branchName st = await ?m2 ?K2 ?st2"
    using await_Inr[of "getLastCircleCIPipelineID w branchName" ?st1 ?pl ?K1, OF get]
    by (simp add: initialize_unfold)
  let ?po = "find (\<lambda>workflow. wf_name workflow = ''package_and_publish_release_dryrun'') (resp_items rw1)"
  have po: "fst (?m2 ?st2) = Inr ?po"
    using wf1 by (simp add: getSpecificWorkflow_fulfilled)
  let ?st3 = "issue (workflow_options (p_id p) ?h) ?st2"
  let ?st4 = "not_awaited (throwIfPendingOrUnsuccessfulWorkflow ?po) ?st3"
  let ?m3 = "getSpecificWorkflow w (p_id p) ''tests''"
  let ?K3 = "\<lambda>testsWorkflow st5.
       fetch_jobs w ?po testsWorkflow
         (not_awaited (throwIfPendingOrUnsuccessfulWorkflow testsWorkflow) st5)"
  have i2: "initialize w branchName st = await ?m3 ?K3 ?st4"
    unfolding i1 using await_Inr[of ?m2 ?st2 ?po ?K2, OF po] by simp
  let ?to = "find (\<lambda>workflow. wf_name workflow = ''tests'') (resp_items rw2)"
  have "length (requests ?st4) = length (requests st) + 2" by simp
  then have to: "fst (?m3 ?st4) = Inr ?to"
    using wf2 by (simp add: getSpecificWorkflow_fulfilled)
  let ?st5 = "issue (workflow_options (p_id p) ?h) ?st4"
  let ?st6 = "not_awaited (throwIfPendingOrUnsuccessfulWorkflow ?to) ?st5"
  have i3: "initialize w branchName st = fetch_jobs w ?po ?to ?st6"
    unfolding i2 using await_Inr[of ?m3 ?st4 ?to ?K3, OF to] by simp
  have "?po = None \<or> ?to = None"
    using absent by (auto dest: find_absent)
  then show ?thesis
    unfolding i3 by (rule fetch_jobs_absent)
qed

theorem initialize_absent_workflow_witness:
  "fst (initialize
         (workflows_world [\<lparr>wf_id = ''w2'', wf_name = ''tests'', wf_status = ''success''\<rparr>])
         ''main'' empty_state) = Inl (TypeError ''id'')
   \<and> fst (initialize
         (workflows_world [\<lparr>wf_id = ''w1'', wf_name = ''package_and_publish_release_dryrun'',
                            wf_status = ''success''\<rparr>])
         ''main'' empty_state) = Inl (TypeError ''id'')"
proof -
  let ?pa = "\<lparr>p_id = ''p1'', p_number = 42\<rparr>"
  let ?pb = "\<lparr>p_id = ''p0'', p_number = 41\<rparr>"
  let ?rp = "\<lparr>resp_error = JsUndefined, resp_items = [?pa, ?pb]\<rparr>"
  let ?t = "[\<lparr>wf_id = ''w2'', wf_name = ''tests'', wf_status = ''success''\<rparr>]"
  let ?p = "[\<lparr>wf_id = ''w1'', wf_name = ''package_and_publish_release_dryrun'',
              wf_status = ''success''\<rparr>]"
  have pipe: "pipelines_api (workflows_world wfs) (length (requests empty_state))
      (pipeline_options ''main'' (circleCIHeaders empty_state)) = Inr ?rp" for wfs
    by (simp add: workflows_world_def example_world_def)
  have ok: "\<not> ToBoolean (resp_error ?rp)" and items: "resp_items ?rp = ?pa # [?pb]" by simp_all
  have wf: "workflows_api (workflows_world wfs) n opts = Inr \<lparr>resp_error = JsUndefined, resp_items = wfs\<rparr>"
    for wfs n opts
    by (simp add: workflows_world_def)
  have wok: "\<not> ToBoolean (resp_error \<lparr>resp_error = JsUndefined, resp_items = wfs\<rparr>)" for wfs :: "workflow list"
    by simp
  have absent1: "''package_and_publish_release_dryrun''
        \<notin> wf_name ` set (resp_items \<lparr>resp_error = JsUndefined, resp_items = ?t\<rparr>)
      \<or> ''tests'' \<notin> wf_name ` set (resp_items \<lparr>resp_error = JsUndefined, resp_items = ?t\<rparr>)"
    by simp
  have absent2: "''package_and_publish_release_dryrun''
        \<notin> wf_name ` set (resp_items \<lparr>resp_error = JsUndefined, resp_items = ?p\<rparr>)
      \<or> ''tests'' \<notin> wf_name ` set (resp_items \<lparr>resp_error = JsUndefined, resp_items = ?p\<rparr>)"
    by simp
  have a: "fst (initialize (workflows_world ?t) ''main'' empty_state) = Inl (TypeError ''id'')"
    by (rule initialize_absent_workflow[OF pipe ok items wf wok wf wok absent1])
  have b: "fst (initialize (workflows_world ?p) ''main'' empty_state) = Inl (TypeError ''id'')"
    by (rule initialize_absent_workflow[OF pipe ok items wf wok wf wok absent2])
  from a b show ?thesis by simp
qed

text \<open>
  C7. On an initialised resolver, for a job name that no aggregated job has,
  \<^verbatim>\<open>#findUrlForJob\<close> fails and leaves the state as it was: no request is issued. The
  failure the spec names \<^verbatim>\<open>JobNotFound\<close> is, in the source, the \<open>TypeError\<close> of reading
  \<^verbatim>\<open>.job_number\<close> of the \<^verbatim>\<open>undefined\<close> job, raised while the argument of
  \<^verbatim>\<open>#getJobsArtifacts\<close> is evaluated.
\<close>

theorem findUrlForJob_absent_job:
  assumes "jobs st = Some js" and "jobName \<notin> job_name ` set js"
  shows "findUrlForJob w jobName artifactPath st = (Inl (TypeError ''job_number''), st)"
proof -
  have "find (\<lambda>j. job_name j = jobName) js = None"
    using assms(2) by (auto simp: find_None_iff)
  with assms(1) show ?thesis by (simp add: findUrlForJob_def)
qed

theorem findUrlForJob_absent_job_witness:
  "findUrlForJob example_world ''build_android'' ''app.apk'' initialized_state
     = (Inl (TypeError ''job_number''), initialized_state)"
proof -
  have h1: "jobs initialized_state =
      Some [\<lparr>job_name = ''build_hermes_macos-Debug'', job_number = 7\<rparr>,
            \<lparr>job_name = ''test_android'', job_number = 19\<rparr>]"
    by (simp add: initialized_state_def empty_state_def)
  have h2: "''build_android'' \<notin> job_name `
      set [\<lparr>job_name = ''build_hermes_macos-Debug'', job_number = 7\<rparr>,
           \<lparr>job_name = ''test_android'', job_number = 19\<rparr>]"
    by simp
  show ?thesis by (rule findUrlForJob_absent_job[OF h1 h2])
qed

text \<open>
  C8. In each of the four request helpers, when \<^verbatim>\<open>response.error\<close> is truthy (the test the
  source makes), the promise of the helper is rejected with the \<open>ReferenceError\<close> for the
  identifier \<^verbatim>\<open>error\<close>, whatever the error value was: \<^verbatim>\<open>throw new Error(error)\<close> evaluates a
  name that has no binding.
\<close>

theorem response_error_raises_ReferenceError:
  "(pipelines_api w (length (requests st)) (pipeline_options branchName (circleCIHeaders st)) = Inr r1
      \<and> ToBoolean (resp_error r1)
      \<longrightarrow> fst (getLastCircleCIPipelineID w branchName st) = Inl (ReferenceError ''error''))
   \<and> (workflows_api w (length (requests st)) (workflow_options pipelineId (circleCIHeaders st)) = Inr r2
      \<and> ToBoolean (resp_error r2)
      \<longrightarrow> fst (getSpecificWorkflow w pipelineId workflowName st) = Inl (ReferenceError ''error''))
   \<and> (jobs_api w (length (requests st)) (job_options workflowId (circleCIHeaders st)) = Inr r3
      \<and> ToBoolean (resp_error r3)
      \<longrightarrow> fst (getCircleCIJobs w workflowId st) = Inl (ReferenceError ''error''))
   \<and> (artifacts_api w (length (requests st)) (artifacts_options jobNumber (circleCIHeaders st)) = Inr r4
      \<and> ToBoolean (resp_error r4)
      \<longrightarrow> fst (getJobsArtifacts w jobNumber st) = Inl (ReferenceError ''error''))"
  by (simp add: getLastCircleCIPipelineID_def getSpecificWorkflow_def getCircleCIJobs_def
      getJobsArtifacts_def Let_def)

theorem response_error_raises_ReferenceError_witness:
  "fst (getLastCircleCIPipelineID error_world ''main'' empty_state) = Inl (ReferenceError ''error'')
   \<and> fst (getSpecificWorkflow error_world ''p1'' ''tests'' empty_state) = Inl (ReferenceError ''error'')
   \<and> fst (getCircleCIJobs error_world ''w1'' empty_state) = Inl (ReferenceError ''error'')
   \<and> fst (getJobsArtifacts error_world 19 empty_state) = Inl (ReferenceError ''error'')"
  using response_error_raises_ReferenceError[of error_world empty_state "''main''"
      "\<lparr>resp_error = JsObject ''ETIMEDOUT'', resp_items = []\<rparr>"
      "''p1''" "\<lparr>resp_error = JsObject ''ETIMEDOUT'', resp_items = []\<rparr>" "''tests''"
      "''w1''" "\<lparr>resp_error = JsString ''ECONNRESET'', resp_items = []\<rparr>"
      19 "\<lparr>resp_error = JsNumber 503, resp_items = []\<rparr>"]
  by (simp add: error_world_def)

text \<open>
  Two neighbouring cases, for the record. A falsy \<^verbatim>\<open>response.error\<close> (the empty string,
  \<^verbatim>\<open>0\<close>, \<^verbatim>\<open>null\<close>) is no error to the helpers, which go on to the body. A rejection of
  the promise of \<^verbatim>\<open>request\<close> itself is thrown on by \<^verbatim>\<open>await\<close> with its own value.
\<close>

lemma falsy_response_error_goes_on:
  "jobs_api w (length (requests st)) (job_options workflowId (circleCIHeaders st))
      = Inr \<lparr>resp_error = JsString [], resp_items = js\<rparr>
   \<Longrightarrow> fst (getCircleCIJobs w workflowId st) = Inr js"
  by (simp add: getCircleCIJobs_def Let_def)

lemma request_rejection_is_thrown_on:
  "jobs_api w (length (requests st)) (job_options workflowId (circleCIHeaders st)) = Inl e
   \<Longrightarrow> fst (getCircleCIJobs w workflowId st) = Inl e"
  by (simp add: getCircleCIJobs_def Let_def)




text \<open>
  C10. Whatever the devices and emulators are, \<^verbatim>\<open>maybeLaunchAndroidEmulator\<close> logs that a
  device is connected and returns: it runs no command and spawns no process.
\<close>

theorem maybeLaunchAndroidEmulator_always_skips:
  "maybeLaunchAndroidEmulator w st =
     st\<lparr>console := console st @
          [ConsoleInfo ''Already have a device connected. Skip launching emulator.'']\<rparr>
   \<and> spawned (maybeLaunchAndroidEmulator w st) = spawned st
   \<and> execs (maybeLaunchAndroidEmulator w st) = execs st"
  by (simp add: maybeLaunchAndroidEmulator_def)

text \<open>
  With no device attached and an emulator image at hand, \<^verbatim>\<open>hasConnectedDevice()\<close> is false
  and \<^verbatim>\<open>tryLaunchEmulator()\<close> would start the emulator; \<^verbatim>\<open>maybeLaunchAndroidEmulator\<close> starts
  nothing.
\<close>

lemma no_device_and_an_emulator:
  "fst (hasConnectedDevice example_world empty_state) = False
   \<and> spawned (snd (tryLaunchEmulator example_world empty_state)) = [(''emulator'', [''@Pixel_7''])]
   \<and> spawned (maybeLaunchAndroidEmulator example_world empty_state) = []"
  by code_simp

end
